theory Spec2Isabelle
  imports Complex_Main "HOL-Library.Log_Nat"
begin

section \<open>Python values and the operations the service applies to them\<close>

text \<open>
  The service (\<^verbatim>\<open>isricv5.py\<close>) works on the values that \<^verbatim>\<open>response.json()\<close>
  hands back: \<^verbatim>\<open>None\<close>, booleans, numbers, strings, lists and dictionaries.
  A number is the real that the Python value stands for. The measurements and the
  forecast are idealised: the comparisons and quotients of the rules are the exact ones,
  not their IEEE-754 roundings. The coordinates are not idealised: the subtraction of the
  proximity test is the one of doubles, defined below. A dictionary is an association
  list in insertion order; its keys are pairwise different, as in Python.
\<close>

datatype pyval =
    PNone
  | PBool bool
  | PNum real
  | PStr string
  | PList "pyval list"
  | PDict "(string \<times> pyval) list"

text \<open>The exceptions that the modelled statements can raise.\<close>

datatype error =
    TypeError
  | KeyError
  | IndexError
  | AttributeError
  | ZeroDivisionError
  | IntegrityError

text \<open>Sequencing of steps that may raise: the first exception ends the computation.\<close>

definition ebind :: "error + 'a \<Rightarrow> ('a \<Rightarrow> error + 'b) \<Rightarrow> error + 'b" where
  "ebind m f = (case m of Inl e \<Rightarrow> Inl e | Inr v \<Rightarrow> f v)"

text \<open>Truth value of an object, as \<^verbatim>\<open>if x:\<close> and \<^verbatim>\<open>not x\<close> read it.\<close>

fun truthy :: "pyval \<Rightarrow> bool" where
  "truthy PNone = False"
| "truthy (PBool b) = b"
| "truthy (PNum r) = (r \<noteq> 0)"
| "truthy (PStr s) = (s \<noteq> [])"
| "truthy (PList xs) = (xs \<noteq> [])"
| "truthy (PDict kvs) = (kvs \<noteq> [])"

text \<open>
  The numeric reading of an operand of \<^verbatim>\<open><\<close>, \<^verbatim>\<open>>=\<close>, \<^verbatim>\<open>+\<close> or \<^verbatim>\<open>/\<close> whose other
  operand is a number: \<^verbatim>\<open>bool\<close> is a subclass of \<^verbatim>\<open>int\<close>; every other type raises
  \<^verbatim>\<open>TypeError\<close>.
\<close>

fun as_number :: "pyval \<Rightarrow> error + real" where
  "as_number (PNum r) = Inr r"
| "as_number (PBool b) = Inr (if b then 1 else 0)"
| "as_number _ = Inl TypeError"

text \<open>\<^verbatim>\<open>x / y\<close> on numbers.\<close>

definition py_div :: "real \<Rightarrow> real \<Rightarrow> error + real" where
  "py_div x y = (if y = 0 then Inl ZeroDivisionError else Inr (x / y))"

text \<open>\<^verbatim>\<open>x[k]\<close> with a string key \<^verbatim>\<open>k\<close>.\<close>

fun getitem_key :: "pyval \<Rightarrow> string \<Rightarrow> error + pyval" where
  "getitem_key (PDict kvs) k = (case map_of kvs k of None \<Rightarrow> Inl KeyError | Some v \<Rightarrow> Inr v)"
| "getitem_key _ k = Inl TypeError"

text \<open>\<^verbatim>\<open>x[0]\<close>. The keys of a parsed JSON object are strings, so \<^verbatim>\<open>0\<close> is never one.\<close>

fun getitem_0 :: "pyval \<Rightarrow> error + pyval" where
  "getitem_0 (PList []) = Inl IndexError"
| "getitem_0 (PList (x # xs)) = Inr x"
| "getitem_0 (PStr []) = Inl IndexError"
| "getitem_0 (PStr (c # cs)) = Inr (PStr [c])"
| "getitem_0 (PDict kvs) = Inl KeyError"
| "getitem_0 _ = Inl TypeError"

text \<open>\<^verbatim>\<open>x.get(k, d)\<close>: only a dictionary has the method.\<close>

fun dict_get :: "pyval \<Rightarrow> string \<Rightarrow> pyval \<Rightarrow> error + pyval" where
  "dict_get (PDict kvs) k d = Inr (case map_of kvs k of None \<Rightarrow> d | Some v \<Rightarrow> v)"
| "dict_get _ k d = Inl AttributeError"

text \<open>
  The elements that \<^verbatim>\<open>for x in v\<close> visits: the items of a list, the keys of a
  dictionary, the characters of a string; the other types are not iterable.
\<close>

fun py_iter :: "pyval \<Rightarrow> error + pyval list" where
  "py_iter (PList xs) = Inr xs"
| "py_iter (PDict kvs) = Inr (map (\<lambda>kv. PStr (fst kv)) kvs)"
| "py_iter (PStr s) = Inr (map (\<lambda>c. PStr [c]) s)"
| "py_iter _ = Inl TypeError"

subsection \<open>Formatting numbers\<close>

text \<open>The decimal digit of a number below ten.\<close>

definition digit_char :: "nat \<Rightarrow> char" where
  "digit_char n = ''0123456789'' ! n"

function str_nat :: "nat \<Rightarrow> string" where
  "str_nat n = (if n < 10 then [digit_char n] else str_nat (n div 10) @ [digit_char (n mod 10)])"
  by pat_completeness auto
termination
  by (relation "measure (\<lambda>n. n)") auto

declare str_nat.simps [simp del]

definition str_int :: "int \<Rightarrow> string" where
  "str_int i = (if i < 0 then ''-'' @ str_nat (nat (- i)) else str_nat (nat i))"

text \<open>Rounding to the nearest integer, ties to the even one.\<close>

definition round_half_even :: "real \<Rightarrow> int" where
  "round_half_even x =
     (let f = \<lfloor>x\<rfloor>; d = x - of_int f
      in if d < 1/2 then f else if 1/2 < d then f + 1 else if even f then f else f + 1)"

text \<open>The format specification \<^verbatim>\<open>.1f\<close>: one digit after the point.\<close>

definition fmt_1f :: "real \<Rightarrow> string" where
  "fmt_1f x =
     (let n = round_half_even (\<bar>x\<bar> * 10)
      in (if x < 0 then ''-'' else '''') @ str_nat (nat (n div 10)) @ ''.'' @ str_nat (nat (n mod 10)))"

section \<open>The recommendation rules\<close>

text \<open>
  \<^verbatim>\<open>recommendations\<close> is a Python \<^verbatim>\<open>set\<close>: \<^verbatim>\<open>add\<close> of a member changes nothing. The
  set is kept as the list of its members in the order of their first insertion.
\<close>

definition set_add :: "string \<Rightarrow> string list \<Rightarrow> string list" where
  "set_add s xs = (if s \<in> set xs then xs else xs @ [s])"

definition msg_nitrogen :: string where
  "msg_nitrogen = ''Consider adding nitrogen-based fertilizers.''"

definition msg_moisture :: string where
  "msg_moisture = ''Soil moisture is low. Increase irrigation.''"

definition msg_ph_optimal :: string where
  "msg_ph_optimal = ''Soil pH is within the optimal range.''"

definition msg_ph_lime :: string where
  "msg_ph_lime = ''Consider adding lime to raise the pH.''"

definition msg_ph_sulfur :: string where
  "msg_ph_sulfur = ''Consider adding sulfur to lower the pH.''"

definition msg_cec :: string where
  "msg_cec = ''CEC is within the optimal range.''"

definition msg_rain :: "real \<Rightarrow> string" where
  "msg_rain avg_rain = ''High average chance of rain ('' @ fmt_1f avg_rain @ ''%). Delay irrigation.''"

definition msg_wind :: "real \<Rightarrow> string" where
  "msg_wind avg_wind = ''Strong winds expected ('' @ fmt_1f avg_wind @ '' kph). Protect crops.''"

text \<open>
  \<^verbatim>\<open>sum(day['day'][field] for day in weather_data)\<close>, from the start value \<^verbatim>\<open>0\<close>: each
  day is subscripted and its value added before the next day is visited.
\<close>

fun sum_days :: "string \<Rightarrow> pyval list \<Rightarrow> real \<Rightarrow> error + real" where
  "sum_days field [] acc = Inr acc"
| "sum_days field (day # days) acc =
     ebind (getitem_key day ''day'') (\<lambda>d.
     ebind (getitem_key d field) (\<lambda>v.
     ebind (as_number v) (\<lambda>x.
     sum_days field days (acc + x))))"

text \<open>Lines 86 to 92: the two rules on the forecast, skipped when it is falsy.\<close>

definition weather_rules :: "pyval \<Rightarrow> string list \<Rightarrow> error + string list" where
  "weather_rules weather_data recs =
     (if truthy weather_data then
        ebind (py_iter weather_data) (\<lambda>days.
        ebind (sum_days ''daily_chance_of_rain'' days 0) (\<lambda>rain_total.
        ebind (py_div rain_total (real (length days))) (\<lambda>avg_rain.
        ebind (sum_days ''maxwind_kph'' days 0) (\<lambda>wind_total.
        ebind (py_div wind_total (real (length days))) (\<lambda>avg_wind.
        let recs1 = (if 50 < avg_rain then set_add (msg_rain avg_rain) recs else recs);
            recs2 = (if 20 < avg_wind then set_add (msg_wind avg_wind) recs1 else recs1)
        in Inr recs2)))))
      else Inr recs)"

text \<open>\<^verbatim>\<open>soil_data.get(k, 0)\<close> on the dictionary that the caller built.\<close>

definition get_or_0 :: "(string \<times> pyval) list \<Rightarrow> string \<Rightarrow> pyval" where
  "get_or_0 soil_data k = (case map_of soil_data k of None \<Rightarrow> PNum 0 | Some v \<Rightarrow> v)"

text \<open>
  \<^verbatim>\<open>generate_recommendations\<close>, lines 66 to 94. \<^verbatim>\<open>list(recommendations)\<close> lists a set
  of strings in an order that depends on the interpreter's hash seed: \<open>set_order\<close> is
  that order, as a function of the members in the order of insertion.
\<close>

definition generate_recommendations ::
  "(string list \<Rightarrow> string list) \<Rightarrow> (string \<times> pyval) list \<Rightarrow> pyval \<Rightarrow> error + string list" where
  "generate_recommendations set_order soil_data weather_data =
     (let nitrogen_v = get_or_0 soil_data ''nitrogen'';
          moisture_v = get_or_0 soil_data ''wv0010''
      in ebind (as_number (get_or_0 soil_data ''phh2o'')) (\<lambda>ph_raw.
         ebind (py_div ph_raw 10) (\<lambda>ph_v.
         let cec_v = get_or_0 soil_data ''cec''
         in ebind (as_number nitrogen_v) (\<lambda>n.
            let recs1 = (if n < 100 then set_add msg_nitrogen [] else [])
            in ebind (as_number moisture_v) (\<lambda>m.
               let recs2 = (if m < 0.2 then set_add msg_moisture recs1 else recs1);
                   recs3 = (if 6 < ph_v \<and> ph_v < 7.5 then set_add msg_ph_optimal recs2
                            else if ph_v < 6 then set_add msg_ph_lime recs2
                            else if 7.5 < ph_v then set_add msg_ph_sulfur recs2
                            else recs2)
               in ebind (as_number cec_v) (\<lambda>c.
                  let recs4 = (if 10 \<le> c then set_add msg_cec recs3 else recs3)
                  in ebind (weather_rules weather_data recs4) (\<lambda>recs5.
                     Inr (set_order recs5))))))))"

section \<open>The stored records\<close>

text \<open>
  A \<^verbatim>\<open>datetime\<close>: the wall-clock reading in microseconds since the epoch, and the
  offset of its time zone from UTC in microseconds (\<open>None\<close> for a naive value).
\<close>

record datetime =
  wall :: int
  tzinfo :: "int option"

text \<open>\<^verbatim>\<open>datetime.now(timezone.utc)\<close> when the clock shows the instant \<open>t\<close>.\<close>

definition now_utc :: "int \<Rightarrow> datetime" where
  "now_utc t = \<lparr>wall = t, tzinfo = Some 0\<rparr>"

text \<open>
  Subtraction of two \<^verbatim>\<open>datetime\<close>s, a \<^verbatim>\<open>timedelta\<close> in microseconds: between aware
  values it is the difference of the instants; a naive and an aware value do not mix.
\<close>

definition dt_sub :: "datetime \<Rightarrow> datetime \<Rightarrow> error + int" where
  "dt_sub a b =
     (case (tzinfo a, tzinfo b) of
        (Some oa, Some ob) \<Rightarrow> Inr ((wall a - oa) - (wall b - ob))
      | (None, None) \<Rightarrow> Inr (wall a - wall b)
      | _ \<Rightarrow> Inl TypeError)"

text \<open>\<^verbatim>\<open>timedelta(days=2)\<close> in microseconds.\<close>

definition two_days :: int where
  "two_days = 2 * 24 * 3600 * 1000000"

text \<open>
  The model class \<^verbatim>\<open>SoilData\<close>, lines 21 to 34. The measurement columns hold what the
  code assigns to them, which may be \<^verbatim>\<open>None\<close>. The autoincrement primary key is the
  position of the row in the table.
\<close>

record SoilData =
  lat :: real
  lon :: real
  nitrogen :: pyval
  nitrogen_uncertainty :: pyval
  ph :: pyval
  moisture :: pyval
  cec :: pyval
  temperature :: pyval
  humidity :: pyval
  recommendations :: string
  predictions :: string
  date_recorded :: datetime

text \<open>
  \<^verbatim>\<open>db.session.add(r); db.session.commit()\<close>: every column is declared
  \<^verbatim>\<open>nullable=False\<close>, so the insert of a row with a \<^verbatim>\<open>None\<close> measurement is refused;
  otherwise the row is appended to the table.
\<close>

definition db_add_commit :: "SoilData \<Rightarrow> SoilData list \<Rightarrow> error + SoilData list" where
  "db_add_commit r table =
     (if PNone \<in> set [nitrogen r, nitrogen_uncertainty r, ph r, moisture r, cec r,
                       temperature r, humidity r]
      then Inl IntegrityError else Inr (table @ [r]))"

subsection \<open>Subtraction of doubles\<close>

text \<open>
  A coordinate is a Python \<^verbatim>\<open>float\<close>, an IEEE-754 double, held as the real number it
  stands for; NaN and the infinities are left out. \<open>binary_exponent x\<close> is the \<open>e\<close> with
  \<open>2 ^ e \<le> \<bar>x\<bar> < 2 ^ (e + 1)\<close> for \<open>x \<noteq> 0\<close>.
\<close>

definition binary_exponent :: "real \<Rightarrow> int" where
  "binary_exponent x =
     (if 1 \<le> \<bar>x\<bar> then bitlen \<lfloor>\<bar>x\<bar>\<rfloor> - 1 else - bitlen (\<lceil>1 / \<bar>x\<bar>\<rceil> - 1))"

text \<open>
  Rounding to 53 significant bits, to the nearest and in a tie to the even significand,
  as the hardware rounds the result of an operation on doubles. The exponent range is not
  bounded: the difference of two doubles is never between two subnormal doubles, and a
  difference beyond the largest double, infinite in Python, is here a finite number larger
  than every double; neither changes the outcome of a comparison with a double.
\<close>

definition round_double :: "real \<Rightarrow> real" where
  "round_double x =
     (if x = 0 then 0
      else let q = 2 powi (binary_exponent x - 52)
           in of_int (round_half_even (x / q)) * q)"

text \<open>\<^verbatim>\<open>a - b\<close> on two doubles.\<close>

definition float_sub :: "real \<Rightarrow> real \<Rightarrow> real" where
  "float_sub a b = round_double (a - b)"

text \<open>
  \<^verbatim>\<open>find_closest_coordinates\<close>, lines 97 to 102: \<^verbatim>\<open>SoilData.query.all()\<close> is the table
  in storage order, and the loop returns at the first row that passes the test of line
  100, \<^verbatim>\<open>abs(record.lat - lat) <= threshold and abs(record.lon - lon) <= threshold\<close>.
\<close>

fun find_closest_coordinates :: "real \<Rightarrow> real \<Rightarrow> real \<Rightarrow> SoilData list \<Rightarrow> SoilData option" where
  "find_closest_coordinates la lo threshold [] = None"
| "find_closest_coordinates la lo threshold (r # records) =
     (if \<bar>float_sub (lat r) la\<bar> \<le> threshold \<and> \<bar>float_sub (lon r) lo\<bar> \<le> threshold
      then Some r
      else find_closest_coordinates la lo threshold records)"

section \<open>The two upstream services\<close>

record http_response =
  status_code :: int
  json_body :: pyval

datatype http_call = SoilGridsGET real real | WeatherGET real real

text \<open>
  What a request works in: the table, and the requests sent to the upstream services so
  far.
\<close>

record state =
  db :: "SoilData list"
  http_log :: "http_call list"

text \<open>
  What a request does not control: the answers of the two services, the clock at the
  freshness test (line 116) and at the construction of the new record (line 179), and the
  iteration order of a set of strings.
\<close>

record env =
  soil_api :: "real \<Rightarrow> real \<Rightarrow> http_response"
  weather_api :: "real \<Rightarrow> real \<Rightarrow> http_response"
  clock_lookup :: int
  clock_store :: int
  set_order :: "string list \<Rightarrow> string list"

text \<open>
  Line 49, \<^verbatim>\<open>all(value is None for layer in soil_data for value in layer.values())\<close>,
  over the elements of \<^verbatim>\<open>soil_data\<close>: \<^verbatim>\<open>all\<close> stops at the first value that is not
  \<^verbatim>\<open>None\<close>, and only a dictionary has \<^verbatim>\<open>values\<close>.
\<close>

fun all_values_none :: "pyval list \<Rightarrow> error + bool" where
  "all_values_none [] = Inr True"
| "all_values_none (PDict kvs # layers) =
     (if list_all (\<lambda>kv. snd kv = PNone) kvs then all_values_none layers else Inr False)"
| "all_values_none (_ # layers) = Inl AttributeError"

text \<open>Lines 45 to 54 of \<^verbatim>\<open>get_soil_data\<close>: what it returns for a response.\<close>

definition soil_data_of :: "http_response \<Rightarrow> error + pyval" where
  "soil_data_of response =
     (if status_code response = 200 then
        ebind (getitem_key (json_body response) ''properties'') (\<lambda>props.
        ebind (getitem_key props ''layers'') (\<lambda>soil_data.
        ebind (py_iter soil_data) (\<lambda>layers.
        ebind (all_values_none layers) (\<lambda>all_null.
        if all_null
        then Inr (PDict [(''error'', PStr ''Data returned is null. Please try again later.'')])
        else Inr soil_data))))
      else Inr (PDict [(''error'',
                  PStr (''Failed to fetch data: '' @ str_int (status_code response)))]))"

text \<open>\<^verbatim>\<open>get_soil_data\<close>, lines 41 to 54.\<close>

definition get_soil_data :: "env \<Rightarrow> real \<Rightarrow> real \<Rightarrow> state \<Rightarrow> (error + pyval) \<times> state" where
  "get_soil_data e la lo s =
     (soil_data_of (soil_api e la lo), s\<lparr>http_log := http_log s @ [SoilGridsGET la lo]\<rparr>)"

text \<open>Lines 60 to 63 of \<^verbatim>\<open>get_weather_data\<close>.\<close>

definition weather_data_of :: "http_response \<Rightarrow> error + pyval" where
  "weather_data_of response =
     (if status_code response = 200 then
        ebind (getitem_key (json_body response) ''forecast'') (\<lambda>forecast.
        getitem_key forecast ''forecastday'')
      else Inr PNone)"

text \<open>\<^verbatim>\<open>get_weather_data\<close>, lines 57 to 63.\<close>

definition get_weather_data :: "env \<Rightarrow> real \<Rightarrow> real \<Rightarrow> state \<Rightarrow> (error + pyval) \<times> state" where
  "get_weather_data e la lo s =
     (weather_data_of (weather_api e la lo), s\<lparr>http_log := http_log s @ [WeatherGET la lo]\<rparr>)"

section \<open>The request handler\<close>

text \<open>
  \<^verbatim>\<open>next((layer for layer in soil_data if layer['name'] == name), None)\<close> over the
  elements of \<^verbatim>\<open>soil_data\<close>: the generator subscripts each element until one has
  the name.
\<close>

fun find_layer :: "string \<Rightarrow> pyval list \<Rightarrow> error + pyval" where
  "find_layer name [] = Inr PNone"
| "find_layer name (layer # layers) =
     ebind (getitem_key layer ''name'') (\<lambda>n.
     if n = PStr name then Inr layer else find_layer name layers)"

text \<open>\<^verbatim>\<open>layer['depths'][0]['values']\<close>.\<close>

definition layer_values :: "pyval \<Rightarrow> error + pyval" where
  "layer_values layer =
     ebind (getitem_key layer ''depths'') (\<lambda>depths.
     ebind (getitem_0 depths) (\<lambda>depth.
     getitem_key depth ''values''))"

text \<open>
  Lines 157 to 159:
  \<^verbatim>\<open>layer['depths'][0]['values'].get('mean') if layer else None\<close>.
\<close>

definition layer_mean :: "pyval \<Rightarrow> error + pyval" where
  "layer_mean layer =
     (if truthy layer then ebind (layer_values layer) (\<lambda>vs. dict_get vs ''mean'' PNone)
      else Inr PNone)"

record measurements =
  m_nitrogen :: pyval
  m_nitrogen_uncertainty :: pyval
  m_phh2o :: pyval
  m_wv0010 :: pyval
  m_cec :: pyval

text \<open>Lines 142 to 159 of \<^verbatim>\<open>analyze_soil\<close>: the values read from the soil payload.\<close>

definition extract_measurements :: "pyval \<Rightarrow> error + measurements" where
  "extract_measurements soil_data =
     ebind (py_iter soil_data) (\<lambda>layers.
     ebind (find_layer ''nitrogen'' layers) (\<lambda>nitrogen_layer.
     ebind (find_layer ''phh2o'' layers) (\<lambda>phh2o_layer.
     ebind (find_layer ''wv0010'' layers) (\<lambda>wv0010_layer.
     ebind (find_layer ''cec'' layers) (\<lambda>cec_layer.
     ebind (if truthy nitrogen_layer then
              ebind (layer_values nitrogen_layer) (\<lambda>nitrogen_values.
              ebind (dict_get nitrogen_values ''mean'' PNone) (\<lambda>n.
              ebind (dict_get nitrogen_values ''uncertainty'' (PNum 0)) (\<lambda>u.
              Inr (n, u))))
            else Inr (PNone, PNone)) (\<lambda>nu.
     ebind (layer_mean phh2o_layer) (\<lambda>p.
     ebind (layer_mean wv0010_layer) (\<lambda>w.
     ebind (layer_mean cec_layer) (\<lambda>c.
     Inr \<lparr>m_nitrogen = fst nu, m_nitrogen_uncertainty = snd nu,
          m_phh2o = p, m_wv0010 = w, m_cec = c\<rparr>)))))))))"

text \<open>\<^verbatim>\<open>sep.join(xs)\<close>.\<close>

fun join_str :: "string \<Rightarrow> string list \<Rightarrow> string" where
  "join_str sep [] = []"
| "join_str sep [x] = x"
| "join_str sep (x # y # ys) = x @ sep @ join_str sep (y # ys)"

text \<open>
  An f-string \<^verbatim>\<open>f"{v}suffix"\<close> of the response: the value shown and the text after it.
\<close>

datatype interpolated = Interpolated pyval string

text \<open>
  What the handler returns: the \<^verbatim>\<open>found\<close> body (lines 120 to 134) with its message,
  soil data, predictions and recommendations; the \<^verbatim>\<open>success\<close> body (lines 185 to 197)
  with its soil data and recommendations; or an \<^verbatim>\<open>error\<close> body with its HTTP status
  (line 140).
\<close>

datatype response =
    Found_response string "(string \<times> interpolated) list" pyval pyval
  | Success_response "(string \<times> interpolated) list" pyval
  | Error_response string nat

definition cubic_cm :: string where
  "cubic_cm = ''cm'' @ [CHR 0xC2, CHR 0xB3]"

definition degree_sign :: string where
  "degree_sign = [CHR 0xC2, CHR 0xB0]"

text \<open>Lines 120 to 134: the body built from the record found.\<close>

definition found_response :: "SoilData \<Rightarrow> response" where
  "found_response r =
     Found_response ''Using existing data from the database.''
       [(''nitrogen'', Interpolated (nitrogen r) '' g/kg''),
        (''nitrogen_uncertainty'', Interpolated (nitrogen_uncertainty r) '' ''),
        (''ph'', Interpolated (ph r) '' pH''),
        (''moisture'', Interpolated (moisture r) ('' '' @ cubic_cm @ ''/'' @ cubic_cm)),
        (''cec'', Interpolated (cec r) '' cmol(c)/kg''),
        (''temperature'', Interpolated (temperature r) ('' '' @ degree_sign @ ''C'')),
        (''humidity'', Interpolated (humidity r) '' %'')]
       (PStr (predictions r))
       (PStr (recommendations r))"

text \<open>
  Lines 162 to 180: the new record, its arguments evaluated in the order written. The
  result also carries the two weather readings for the body of the answer.
\<close>

definition new_record_of ::
  "env \<Rightarrow> real \<Rightarrow> real \<Rightarrow> measurements \<Rightarrow> pyval \<Rightarrow> error + (pyval \<times> pyval \<times> SoilData)" where
  "new_record_of e la lo m weather_data =
     ebind (getitem_0 weather_data) (\<lambda>first_day.
     ebind (getitem_key first_day ''day'') (\<lambda>day.
     ebind (getitem_key day ''avgtemp_c'') (\<lambda>avgtemp.
     ebind (getitem_0 weather_data) (\<lambda>first_day'.
     ebind (getitem_key first_day' ''day'') (\<lambda>day'.
     ebind (getitem_key day' ''avghumidity'') (\<lambda>avghumidity.
     ebind (generate_recommendations (set_order e)
              [(''nitrogen'', m_nitrogen m), (''wv0010'', m_wv0010 m),
               (''phh2o'', m_phh2o m), (''cec'', m_cec m)] weather_data) (\<lambda>recs.
     Inr (avgtemp, avghumidity,
          \<lparr>lat = la, lon = lo, nitrogen = m_nitrogen m,
           nitrogen_uncertainty = m_nitrogen_uncertainty m,
           ph = m_phh2o m, moisture = m_wv0010 m, cec = m_cec m,
           temperature = avgtemp, humidity = avghumidity,
           recommendations = join_str ''; '' recs, predictions = [],
           date_recorded = now_utc (clock_store e)\<rparr>))))))))"

text \<open>Lines 185 to 197: the body of the answer after the insert.\<close>

definition success_response :: "measurements \<Rightarrow> pyval \<Rightarrow> pyval \<Rightarrow> SoilData \<Rightarrow> error + response" where
  "success_response m avgtemp avghumidity new_record =
     ebind (as_number (m_phh2o m)) (\<lambda>p.
     ebind (py_div p 10) (\<lambda>ph_shown.
     Inr (Success_response
            [(''nitrogen'', Interpolated (m_nitrogen m) '' g/kg''),
             (''nitrogen_uncertainty'', Interpolated (m_nitrogen_uncertainty m) '' ''),
             (''ph'', Interpolated (PNum ph_shown) '' pH''),
             (''moisture'', Interpolated (m_wv0010 m) ('' '' @ cubic_cm @ ''/'' @ cubic_cm)),
             (''cec'', Interpolated (m_cec m) '' cmol(c)/kg''),
             (''temperature'', Interpolated avgtemp ('' '' @ degree_sign @ ''C'')),
             (''humidity'', Interpolated avghumidity '' %'')]
            (PStr (recommendations new_record)))))"

text \<open>
  Lines 136 to 197 of \<^verbatim>\<open>analyze_soil\<close>: the two fetches, the test of line 139, the
  extraction, the new record, the insert, and the answer. An exception leaves the table as
  it was when it was raised.
\<close>

definition fetch_and_store :: "env \<Rightarrow> real \<Rightarrow> real \<Rightarrow> state \<Rightarrow> (error + response) \<times> state" where
  "fetch_and_store e la lo s =
     (case get_soil_data e la lo s of
        (Inl err, s1) \<Rightarrow> (Inl err, s1)
      | (Inr soil_data, s1) \<Rightarrow>
     (case get_weather_data e la lo s1 of
        (Inl err, s2) \<Rightarrow> (Inl err, s2)
      | (Inr weather_data, s2) \<Rightarrow>
     if \<not> truthy soil_data \<or> \<not> truthy weather_data
     then (Inr (Error_response ''Failed to fetch data.'' 500), s2)
     else
       (case extract_measurements soil_data of
          Inl err \<Rightarrow> (Inl err, s2)
        | Inr m \<Rightarrow>
       (case new_record_of e la lo m weather_data of
          Inl err \<Rightarrow> (Inl err, s2)
        | Inr (avgtemp, avghumidity, new_record) \<Rightarrow>
       (case db_add_commit new_record (db s2) of
          Inl err \<Rightarrow> (Inl err, s2)
        | Inr table \<Rightarrow>
            (success_response m avgtemp avghumidity new_record, s2\<lparr>db := table\<rparr>))))))"

text \<open>
  Lines 113 and 114: a \<^verbatim>\<open>date_recorded\<close> without a time zone is read as UTC.
\<close>

definition as_utc :: "datetime \<Rightarrow> datetime" where
  "as_utc d = (if tzinfo d = None then d\<lparr>tzinfo := Some 0\<rparr> else d)"

text \<open>
  \<^verbatim>\<open>analyze_soil\<close>, lines 106 to 197, for the coordinates parsed from the request. A
  model object is truthy, so line 112 asks whether a record was found.
  \<^verbatim>\<open>db.session.delete(existing_record)\<close> removes the row that the scan returned: the
  first row of the table equal to it.
\<close>

definition analyze_soil :: "env \<Rightarrow> real \<Rightarrow> real \<Rightarrow> state \<Rightarrow> (error + response) \<times> state" where
  "analyze_soil e la lo s =
     (case find_closest_coordinates la lo 0.5 (db s) of
        None \<Rightarrow> fetch_and_store e la lo s
      | Some found \<Rightarrow>
          let existing_record = found\<lparr>date_recorded := as_utc (date_recorded found)\<rparr>
          in (case dt_sub (now_utc (clock_lookup e)) (date_recorded existing_record) of
                Inl err \<Rightarrow> (Inl err, s)
              | Inr age \<Rightarrow>
                  if two_days < age
                  then fetch_and_store e la lo (s\<lparr>db := remove1 found (db s)\<rparr>)
                  else (Inr (found_response existing_record), s)))"

section \<open>Sample payloads, records and requests\<close>

text \<open>A soil layer as SoilGrids reports it, with one depth interval.\<close>

definition sample_layer :: "string \<Rightarrow> real \<Rightarrow> pyval" where
  "sample_layer name v =
     PDict [(''name'', PStr name),
            (''depths'', PList [PDict [(''values'',
               PDict [(''mean'', PNum v), (''uncertainty'', PNum 3)])]])]"

definition sample_soil_body :: "pyval list \<Rightarrow> pyval" where
  "sample_soil_body layers = PDict [(''properties'', PDict [(''layers'', PList layers)])]"

definition sample_day :: "real \<Rightarrow> real \<Rightarrow> pyval" where
  "sample_day rain wind =
     PDict [(''day'', PDict [(''daily_chance_of_rain'', PNum rain), (''maxwind_kph'', PNum wind),
                             (''avgtemp_c'', PNum 20), (''avghumidity'', PNum 60)])]"

definition sample_weather_body :: "pyval list \<Rightarrow> pyval" where
  "sample_weather_body days = PDict [(''forecast'', PDict [(''forecastday'', PList days)])]"

definition sample_soil_ok :: http_response where
  "sample_soil_ok =
     \<lparr>status_code = 200,
      json_body = sample_soil_body [sample_layer ''nitrogen'' 50, sample_layer ''phh2o'' 65,
                                    sample_layer ''wv0010'' 0.3, sample_layer ''cec'' 12]\<rparr>"

definition sample_weather_ok :: http_response where
  "sample_weather_ok =
     \<lparr>status_code = 200, json_body = sample_weather_body [sample_day 40 10, sample_day 30 12]\<rparr>"

definition sample_env :: "http_response \<Rightarrow> http_response \<Rightarrow> int \<Rightarrow> int \<Rightarrow> env" where
  "sample_env soil_response weather_response t_lookup t_store =
     \<lparr>soil_api = (\<lambda>la lo. soil_response), weather_api = (\<lambda>la lo. weather_response),
      clock_lookup = t_lookup, clock_store = t_store, set_order = rev\<rparr>"

definition sample_record :: "real \<Rightarrow> real \<Rightarrow> datetime \<Rightarrow> SoilData" where
  "sample_record a b d =
     \<lparr>lat = a, lon = b, nitrogen = PNum 50, nitrogen_uncertainty = PNum 3,
      ph = PNum 65, moisture = PNum 0.3, cec = PNum 12, temperature = PNum 20,
      humidity = PNum 60, recommendations = msg_nitrogen, predictions = [],
      date_recorded = d\<rparr>"

definition sample_state :: "SoilData list \<Rightarrow> state" where
  "sample_state table = \<lparr>db = table, http_log = []\<rparr>"

definition sample_soil_dict :: "pyval \<Rightarrow> pyval \<Rightarrow> (string \<times> pyval) list" where
  "sample_soil_dict n p =
     [(''nitrogen'', n), (''wv0010'', PNum 0.3), (''phh2o'', p), (''cec'', PNum 12)]"

definition sample_stored :: "real \<Rightarrow> real \<Rightarrow> int \<Rightarrow> SoilData" where
  "sample_stored a b t =
     (sample_record a b (now_utc t))
       \<lparr>recommendations := join_str ''; '' [msg_cec, msg_ph_optimal, msg_nitrogen]\<rparr>"

definition sample_body :: "(string \<times> interpolated) list" where
  "sample_body =
     [(''nitrogen'', Interpolated (PNum 50) '' g/kg''),
      (''nitrogen_uncertainty'', Interpolated (PNum 3) '' ''),
      (''ph'', Interpolated (PNum 6.5) '' pH''),
      (''moisture'', Interpolated (PNum 0.3) ('' '' @ cubic_cm @ ''/'' @ cubic_cm)),
      (''cec'', Interpolated (PNum 12) '' cmol(c)/kg''),
      (''temperature'', Interpolated (PNum 20) ('' '' @ degree_sign @ ''C'')),
      (''humidity'', Interpolated (PNum 60) '' %'')]"

definition sample_unavailable :: http_response where
  "sample_unavailable = \<lparr>status_code = 503, json_body = PNone\<rparr>"

definition sample_soil_null :: http_response where
  "sample_soil_null =
     \<lparr>status_code = 200,
      json_body = sample_soil_body [PDict [(''name'', PNone), (''depths'', PNone)]]\<rparr>"

definition sample_soil_no_nitrogen :: http_response where
  "sample_soil_no_nitrogen =
     \<lparr>status_code = 200,
      json_body = sample_soil_body [sample_layer ''phh2o'' 65, sample_layer ''wv0010'' 0.3,
                                    sample_layer ''cec'' 12]\<rparr>"

text \<open>A layer whose values carry no uncertainty.\<close>

definition sample_layer_bare :: "string \<Rightarrow> real \<Rightarrow> pyval" where
  "sample_layer_bare name v =
     PDict [(''name'', PStr name),
            (''depths'', PList [PDict [(''values'', PDict [(''mean'', PNum v)])]])]"

section \<open>Facts about the Python operations\<close>

lemma ebind_Inr_iff: "ebind m f = Inr y \<longleftrightarrow> (\<exists>v. m = Inr v \<and> f v = Inr y)"
  by (cases m) (simp_all add: ebind_def)

lemma ebind_Inl_iff: "ebind m f = Inl e \<longleftrightarrow> (m = Inl e \<or> (\<exists>v. m = Inr v \<and> f v = Inl e))"
  by (cases m) (simp_all add: ebind_def)

lemma ebind_Inr [simp]: "ebind (Inr v) f = f v"
  by (simp add: ebind_def)

lemma ebind_Inl [simp]: "ebind (Inl e) f = Inl e"
  by (simp add: ebind_def)

lemma set_set_add [simp]: "set (set_add s xs) = insert s (set xs)"
  by (auto simp: set_add_def)

lemma as_number_cases: "as_number v = Inl TypeError \<or> (\<exists>r. as_number v = Inr r)"
  by (cases v) simp_all

lemma py_div_10 [simp]: "py_div x 10 = Inr (x / 10)"
  by (simp add: py_div_def)

lemma get_or_0_Some: "map_of sd k = Some v \<Longrightarrow> get_or_0 sd k = v"
  by (simp add: get_or_0_def)

lemma get_or_0_None: "map_of sd k = None \<Longrightarrow> get_or_0 sd k = PNum 0"
  by (simp add: get_or_0_def)

section \<open>Rounding to a double\<close>

lemma round_half_even_cases:
  "round_half_even y = \<lfloor>y\<rfloor> \<or> round_half_even y = \<lfloor>y\<rfloor> + 1"
  by (simp add: round_half_even_def Let_def)

lemma int_less_real: "(a::int) < b \<Longrightarrow> real_of_int a + 1 \<le> real_of_int b"
  by linarith

lemma round_half_even_le_even:
  assumes "even n"
  shows "round_half_even y \<le> n \<longleftrightarrow> y \<le> of_int n + 1/2"
proof -
  define f where "f = \<lfloor>y\<rfloor>"
  have lo: "of_int f \<le> y" and hi: "y < of_int f + 1"
    by (simp_all add: f_def)
  consider "f < n" | "f = n" | "n < f" by linarith
  then show ?thesis
  proof cases
    case 1
    then have "real_of_int f + 1 \<le> real_of_int n" by (rule int_less_real)
    moreover have "round_half_even y \<le> f + 1"
      using round_half_even_cases [of y] by (auto simp: f_def)
    ultimately show ?thesis using 1 hi by auto
  next
    case 2
    then have "round_half_even y = (if y - of_int n \<le> 1/2 then n else n + 1)"
      using assms by (auto simp: round_half_even_def Let_def f_def)
    then show ?thesis by auto
  next
    case 3
    then have "real_of_int n + 1 \<le> real_of_int f" by (rule int_less_real)
    moreover have "f \<le> round_half_even y"
      using round_half_even_cases [of y] by (auto simp: f_def)
    ultimately show ?thesis using 3 lo by auto
  qed
qed

lemma round_half_even_ge_even:
  assumes "even n"
  shows "n \<le> round_half_even y \<longleftrightarrow> of_int n - 1/2 \<le> y"
proof -
  define f where "f = \<lfloor>y\<rfloor>"
  have lo: "of_int f \<le> y" and hi: "y < of_int f + 1"
    by (simp_all add: f_def)
  consider "f + 1 < n" | "f + 1 = n" | "n \<le> f" by linarith
  then show ?thesis
  proof cases
    case 1
    then have "real_of_int (f + 1) + 1 \<le> real_of_int n" by (rule int_less_real)
    moreover have "round_half_even y \<le> f + 1"
      using round_half_even_cases [of y] by (auto simp: f_def)
    ultimately show ?thesis using 1 hi by auto
  next
    case 2
    then have odd: "odd f" using assms by auto
    have n: "real_of_int n = real_of_int f + 1" using 2 by simp
    have "round_half_even y = (if y - of_int f < 1/2 then f else f + 1)"
      using odd by (auto simp: round_half_even_def Let_def f_def)
    then show ?thesis using 2 n by auto
  next
    case 3
    then have "real_of_int n \<le> real_of_int f" by simp
    moreover have "f \<le> round_half_even y"
      using round_half_even_cases [of y] by (auto simp: f_def)
    ultimately show ?thesis using 3 lo by auto
  qed
qed

lemma round_half_even_le_int: "y \<le> of_int n \<Longrightarrow> round_half_even y \<le> n"
proof -
  assume a: "y \<le> of_int n"
  have "\<lfloor>y\<rfloor> \<le> n" using a by (simp add: floor_le_iff) 
  then consider "\<lfloor>y\<rfloor> < n" | "\<lfloor>y\<rfloor> = n" by linarith
  then show ?thesis
  proof cases
    case 1
    then show ?thesis using round_half_even_cases [of y] by auto
  next
    case 2
    then have "y = of_int n" using a by (smt (verit) of_int_floor_le)
    then show ?thesis by (simp add: round_half_even_def)
  qed
qed

lemma round_half_even_ge_int: "of_int n \<le> y \<Longrightarrow> n \<le> round_half_even y"
proof -
  assume "of_int n \<le> y"
  then have "n \<le> \<lfloor>y\<rfloor>" by (simp add: le_floor_iff)
  then show ?thesis using round_half_even_cases [of y] by auto
qed

lemma round_double_nonzero:
  "d \<noteq> 0 \<Longrightarrow> round_double d
     = of_int (round_half_even (d / 2 powi (binary_exponent d - 52)))
         * 2 powi (binary_exponent d - 52)"
  by (simp add: round_double_def Let_def)

lemma round_double_bounds:
  assumes q: "0 < q" and lo: "- (of_int n * q) \<le> d" and hi: "d \<le> of_int n * q"
  shows "\<bar>of_int (round_half_even (d / q)) * q\<bar> \<le> of_int n * q"
proof -
  have "d / q \<le> of_int n" using q hi by (simp add: pos_divide_le_eq)
  then have a: "round_half_even (d / q) \<le> n" by (rule round_half_even_le_int)
  have "of_int (- n) \<le> d / q" using q lo by (simp add: pos_le_divide_eq)
  then have b: "- n \<le> round_half_even (d / q)" by (rule round_half_even_ge_int)
  from a b have "\<bar>real_of_int (round_half_even (d / q))\<bar> \<le> of_int n" by linarith
  then have "\<bar>real_of_int (round_half_even (d / q))\<bar> * q \<le> of_int n * q"
    using q by (simp add: mult_right_mono)
  then show ?thesis using q by (simp add: abs_mult)
qed

lemma round_double_small:
  assumes "d \<noteq> 0" and "\<bar>d\<bar> < 1/2"
  shows "\<bar>round_double d\<bar> \<le> 1/2"
proof -
  define z where "z = 1 / \<bar>d\<bar>"
  define m where "m = \<lceil>z\<rceil> - 1"
  define k where "k = bitlen m"
  have z2: "2 < z" using assms by (simp add: z_def field_simps)
  then have "2 < \<lceil>z\<rceil>" by (simp add: less_ceiling_iff)
  then have m2: "2 \<le> m" by (simp add: m_def)
  then have mpos: "0 < m" by simp
  have mz: "of_int m < z" unfolding m_def by linarith
  from bitlen_bounds [OF mpos]
  have b1: "2 ^ nat (k - 1) \<le> m" and b2: "m < 2 ^ nat k" by (simp_all add: k_def)
  have k2: "2 \<le> k"
  proof (rule ccontr)
    assume "\<not> 2 \<le> k"
    then have "nat k \<le> 1" by simp
    then have "(2::int) ^ nat k \<le> 2 ^ 1" by (rule power_increasing) simp
    with b2 m2 show False by simp
  qed
  define u :: real where "u = 1 / 2 ^ nat (k - 1)"
  from b1 have "real_of_int (2 ^ nat (k - 1)) \<le> real_of_int m" by (simp only: of_int_le_iff)
  then have "(2::real) ^ nat (k - 1) \<le> of_int m" by simp
  then have "2 ^ nat (k - 1) < z" using mz by linarith
  then have du: "\<bar>d\<bar> < u"
    using assms(1) by (simp add: z_def u_def field_simps)
  have "(2::real) ^ 1 \<le> 2 ^ nat (k - 1)" using k2 by (intro power_increasing) auto
  then have u_half: "u \<le> 1/2" by (simp add: u_def field_simps)
  have e: "binary_exponent d = - k"
    using assms by (simp add: binary_exponent_def k_def m_def z_def)
  define q :: real where "q = 2 powi (- k - 52)"
  have qpos: "0 < q" by (simp add: q_def)
  have "q * 2 powi 53 = 2 powi (- k - 52 + 53)"
    unfolding q_def by (subst power_int_add) simp_all
  also have "- k - 52 + 53 = - (k - 1)" by simp
  also have "(2::real) powi (- (k - 1)) = 1 / 2 powi (k - 1)"
    by (rule power_int_minus_divide)
  also have "(2::real) powi (k - 1) = 2 ^ nat (k - 1)"
    using k2 by (simp add: power_int_nonneg_exp)
  finally have uq: "of_int (2 ^ 53) * q = u" by (simp add: mult.commute u_def)
  have rd: "round_double d = of_int (round_half_even (d / q)) * q"
    unfolding q_def e [symmetric] by (rule round_double_nonzero [OF assms(1)])
  have "- (of_int (2 ^ 53) * q) \<le> d" "d \<le> of_int (2 ^ 53) * q"
    using du unfolding uq by linarith+
  with qpos have "\<bar>of_int (round_half_even (d / q)) * q\<bar> \<le> of_int (2 ^ 53) * q"
    by (rule round_double_bounds)
  then have "\<bar>round_double d\<bar> \<le> u"
    unfolding rd uq .
  with u_half show ?thesis by simp
qed

lemma round_double_large:
  assumes "1 \<le> \<bar>d\<bar>"
  shows "1 \<le> \<bar>round_double d\<bar>"
proof -
  define n where "n = \<lfloor>\<bar>d\<bar>\<rfloor>"
  define e where "e = bitlen n - 1"
  have npos: "0 < n" using assms by (simp add: n_def)
  from bitlen_bounds [OF npos] have b1: "2 ^ nat e \<le> n" by (simp add: e_def)
  have e0: "0 \<le> e"
    using npos bitlen_eq_zero_iff [of n] bitlen_nonneg [of n] by (simp add: e_def)
  define p :: real where "p = 2 ^ nat e"
  have p1: "1 \<le> p" by (simp add: p_def)
  from b1 have "real_of_int (2 ^ nat e) \<le> real_of_int n" by (simp only: of_int_le_iff)
  then have "(2::real) ^ nat e \<le> of_int n" by simp
  moreover have "of_int n \<le> \<bar>d\<bar>" by (simp add: n_def)
  ultimately have pd: "p \<le> \<bar>d\<bar>" unfolding p_def by linarith
  have ex: "binary_exponent d = e"
    using assms by (simp add: binary_exponent_def e_def n_def)
  define q :: real where "q = 2 powi (e - 52)"
  have qpos: "0 < q" by (simp add: q_def)
  have "q = 2 powi e / 2 powi 52" unfolding q_def by (subst power_int_diff) simp_all
  then have pq: "of_int (2 ^ 52) * q = p"
    using e0 by (simp add: power_int_nonneg_exp p_def)
  have d0: "d \<noteq> 0" using assms by auto
  have rd: "round_double d = of_int (round_half_even (d / q)) * q"
    unfolding q_def ex [symmetric] by (rule round_double_nonzero [OF d0])
  show ?thesis
  proof (cases "0 < d")
    case True
    then have "of_int (2 ^ 52) * q \<le> d" using pd pq by simp
    then have "of_int (2 ^ 52) \<le> d / q" using qpos by (simp add: pos_le_divide_eq)
    then have "2 ^ 52 \<le> round_half_even (d / q)" by (rule round_half_even_ge_int)
    then have "real_of_int (2 ^ 52) \<le> of_int (round_half_even (d / q))"
      by (simp only: of_int_le_iff)
    then have "of_int (2 ^ 52) * q \<le> of_int (round_half_even (d / q)) * q"
      using qpos by (simp only: mult_le_cancel_right_pos)
    with pq p1 rd show ?thesis by simp
  next
    case False
    then have "d \<le> of_int (- (2 ^ 52)) * q" using pd pq d0 by simp
    then have "d / q \<le> of_int (- (2 ^ 52))" using qpos by (simp add: pos_divide_le_eq)
    then have "round_half_even (d / q) \<le> - (2 ^ 52)" by (rule round_half_even_le_int)
    then have "real_of_int (round_half_even (d / q)) \<le> of_int (- (2 ^ 52))"
      by (simp only: of_int_le_iff)
    then have "of_int (round_half_even (d / q)) * q \<le> of_int (- (2 ^ 52)) * q"
      using qpos by (simp only: mult_le_cancel_right_pos)
    with pq p1 rd show ?thesis by simp
  qed
qed

lemma round_double_middle:
  assumes "1/2 \<le> \<bar>d\<bar>" and "\<bar>d\<bar> < 1"
  shows "\<bar>round_double d\<bar> \<le> 1/2 \<longleftrightarrow> \<bar>d\<bar> \<le> 1/2 + 1 / 2 ^ 54"
proof -
  have d0: "d \<noteq> 0" using assms by auto
  have "\<lceil>1 / \<bar>d\<bar>\<rceil> = 2"
    using assms d0 by (intro ceiling_unique) (simp_all add: field_simps)
  moreover have "bitlen 1 = 1" by (simp add: bitlen_alt_def)
  ultimately have e: "binary_exponent d = - 1"
    using assms by (simp add: binary_exponent_def)
  have rd: "round_double d = of_int (round_half_even (d * 2 ^ 53)) / 2 ^ 53"
    using d0 by (simp add: round_double_nonzero e power_int_minus_divide)
  have ev: "even ((2::int) ^ 52)" "even (- ((2::int) ^ 52))" by simp_all
  have "\<bar>round_double d\<bar> \<le> 1/2
        \<longleftrightarrow> \<bar>real_of_int (round_half_even (d * 2 ^ 53))\<bar> \<le> of_int (2 ^ 52)"
    unfolding rd by (simp add: field_simps)
  also have "\<dots> \<longleftrightarrow> - (2 ^ 52) \<le> round_half_even (d * 2 ^ 53)
                     \<and> round_half_even (d * 2 ^ 53) \<le> 2 ^ 52"
    by linarith
  also have "\<dots> \<longleftrightarrow> of_int (- (2 ^ 52)) - 1/2 \<le> d * 2 ^ 53
                     \<and> d * 2 ^ 53 \<le> of_int (2 ^ 52) + 1/2"
    by (simp only: round_half_even_le_even [OF ev(1)] round_half_even_ge_even [OF ev(2)])
  also have "\<dots> \<longleftrightarrow> \<bar>d\<bar> \<le> 1/2 + 1 / 2 ^ 54"
    by (simp add: abs_le_iff field_simps) linarith
  finally show ?thesis .
qed

lemma round_double_le_half:
  "\<bar>round_double d\<bar> \<le> 1/2 \<longleftrightarrow> \<bar>d\<bar> \<le> 1/2 + 1 / 2 ^ 54"
proof -
  consider "d = 0" | "d \<noteq> 0" "\<bar>d\<bar> < 1/2" | "1/2 \<le> \<bar>d\<bar>" "\<bar>d\<bar> < 1" | "1 \<le> \<bar>d\<bar>"
    by linarith
  then show ?thesis
  proof cases
    case 1
    then show ?thesis by (simp add: round_double_def)
  next
    case 2
    with round_double_small [OF 2] show ?thesis by simp
  next
    case 3
    then show ?thesis by (rule round_double_middle)
  next
    case 4
    with round_double_large [OF 4] show ?thesis by simp
  qed
qed

text \<open>
  The exponent brackets the number, and the rounded value is within half a unit in the
  last place of it.
\<close>

lemma binary_exponent_bounds:
  assumes "x \<noteq> 0"
  shows "2 powi (binary_exponent x) \<le> \<bar>x\<bar>" and "\<bar>x\<bar> < 2 powi (binary_exponent x + 1)"
proof -
  have "2 powi (binary_exponent x) \<le> \<bar>x\<bar> \<and> \<bar>x\<bar> < 2 powi (binary_exponent x + 1)"
  proof (cases "1 \<le> \<bar>x\<bar>")
    case True
    define n where "n = \<lfloor>\<bar>x\<bar>\<rfloor>"
    define e where "e = bitlen n - 1"
    have npos: "0 < n" using True by (simp add: n_def)
    from bitlen_bounds [OF npos]
    have b1: "2 ^ nat e \<le> n" and b2: "n < 2 ^ nat (e + 1)" by (simp_all add: e_def)
    have e0: "0 \<le> e"
      using npos bitlen_eq_zero_iff [of n] bitlen_nonneg [of n] by (simp add: e_def)
    have ex: "binary_exponent x = e"
      using True by (simp add: binary_exponent_def e_def n_def)
    from b1 have "real_of_int (2 ^ nat e) \<le> real_of_int n" by (simp only: of_int_le_iff)
    then have l: "(2::real) ^ nat e \<le> of_int n" by simp
    from b2 have "n + 1 \<le> 2 ^ nat (e + 1)" by simp
    then have "real_of_int (n + 1) \<le> real_of_int (2 ^ nat (e + 1))" by (simp only: of_int_le_iff)
    then have u: "of_int n + 1 \<le> (2::real) ^ nat (e + 1)" by simp
    have fl: "of_int n \<le> \<bar>x\<bar>" "\<bar>x\<bar> < of_int n + 1" by (simp_all add: n_def)
    have "(2::real) powi e = 2 ^ nat e" "(2::real) powi (e + 1) = 2 ^ nat (e + 1)"
      using e0 by (simp_all add: power_int_nonneg_exp)
    with l u fl show ?thesis unfolding ex by linarith
  next
    case False
    define z where "z = 1 / \<bar>x\<bar>"
    define m where "m = \<lceil>z\<rceil> - 1"
    define k where "k = bitlen m"
    have xpos: "0 < \<bar>x\<bar>" using assms by simp
    have z1: "1 < z" using False xpos by (simp add: z_def field_simps)
    then have "1 < \<lceil>z\<rceil>" by (simp add: less_ceiling_iff)
    then have mpos: "0 < m" by (simp add: m_def)
    have mz: "of_int m < z" "z \<le> of_int m + 1" unfolding m_def by linarith+
    from bitlen_bounds [OF mpos]
    have b1: "2 ^ nat (k - 1) \<le> m" and b2: "m < 2 ^ nat k" by (simp_all add: k_def)
    have k1: "1 \<le> k"
      using mpos bitlen_eq_zero_iff [of m] bitlen_nonneg [of m] by (simp add: k_def)
    have ex: "binary_exponent x = - k"
      using False by (simp add: binary_exponent_def k_def m_def z_def)
    from b1 have "real_of_int (2 ^ nat (k - 1)) \<le> real_of_int m" by (simp only: of_int_le_iff)
    then have "(2::real) ^ nat (k - 1) \<le> of_int m" by simp
    then have l: "(2::real) ^ nat (k - 1) < z" using mz by linarith
    from b2 have "m + 1 \<le> 2 ^ nat k" by simp
    then have "real_of_int (m + 1) \<le> real_of_int (2 ^ nat k)" by (simp only: of_int_le_iff)
    then have "of_int m + 1 \<le> (2::real) ^ nat k" by simp
    then have u: "z \<le> 2 ^ nat k" using mz by linarith
    have p1: "(2::real) powi (- k) = 1 / 2 ^ nat k"
      using k1 by (simp add: power_int_minus_divide power_int_nonneg_exp)
    have "(2::real) powi (- (k - 1)) = 1 / 2 powi (k - 1)" by (rule power_int_minus_divide)
    also have "(2::real) powi (k - 1) = 2 ^ nat (k - 1)"
      using k1 by (simp add: power_int_nonneg_exp)
    also have "- (k - 1) = - k + 1" by simp
    finally have p2: "(2::real) powi (- k + 1) = 1 / 2 ^ nat (k - 1)" .
    have "1 / 2 ^ nat k \<le> \<bar>x\<bar>"
      using u xpos by (simp add: z_def field_simps)
    moreover have "\<bar>x\<bar> < 1 / 2 ^ nat (k - 1)"
      using l xpos by (simp add: z_def field_simps)
    ultimately show ?thesis unfolding ex p1 p2 by simp
  qed
  then show "2 powi (binary_exponent x) \<le> \<bar>x\<bar>" and "\<bar>x\<bar> < 2 powi (binary_exponent x + 1)"
    by simp_all
qed

lemma round_half_even_error: "\<bar>of_int (round_half_even y) - y\<bar> \<le> 1/2"
proof -
  have "of_int \<lfloor>y\<rfloor> \<le> y" "y < of_int \<lfloor>y\<rfloor> + 1" by simp_all
  then show ?thesis by (auto simp: round_half_even_def Let_def)
qed

lemma round_double_error:
  "\<bar>round_double x - x\<bar> \<le> 2 powi (binary_exponent x - 53)"
proof (cases "x = 0")
  case True
  then show ?thesis by (simp add: round_double_def)
next
  case False
  define q :: real where "q = 2 powi (binary_exponent x - 52)"
  have qpos: "0 < q" by (simp add: q_def)
  have rd: "round_double x = of_int (round_half_even (x / q)) * q"
    unfolding q_def by (rule round_double_nonzero [OF False])
  have "round_double x - x = (of_int (round_half_even (x / q)) - x / q) * q"
    using qpos by (simp add: rd field_simps)
  then have "\<bar>round_double x - x\<bar> = \<bar>of_int (round_half_even (x / q)) - x / q\<bar> * q"
    using qpos by (simp add: abs_mult)
  also have "\<dots> \<le> 1/2 * q"
    using round_half_even_error [of "x / q"] qpos by (intro mult_right_mono) simp_all
  also have "1/2 * q = 2 powi (binary_exponent x - 53)"
  proof -
    have "(2::real) powi (binary_exponent x - 52) = 2 powi (binary_exponent x - 53 + 1)" by simp
    also have "\<dots> = 2 powi (binary_exponent x - 53) * 2 powi 1"
      by (subst power_int_add) simp_all
    finally show ?thesis by (simp add: q_def)
  qed
  finally show ?thesis .
qed

text \<open>
  The test against the threshold 0.5 in exact terms: 0.5 is a double with an even
  significand, so the midpoint between it and the next double rounds down to it.
\<close>

lemma float_sub_le_half:
  "\<bar>float_sub a b\<bar> \<le> 1/2 \<longleftrightarrow> \<bar>a - b\<bar> \<le> 1/2 + 1 / 2 ^ 54"
  unfolding float_sub_def by (rule round_double_le_half)

lemma float_sub_le_threshold:
  "\<bar>float_sub a b\<bar> \<le> 0.5 \<longleftrightarrow> \<bar>a - b\<bar> \<le> 0.5 + 1 / 2 ^ 54"
  using float_sub_le_half [of a b] by simp

lemma float_sub_test:
  "\<bar>float_sub a b\<bar> * 2 \<le> 1 \<longleftrightarrow> \<bar>a - b\<bar> \<le> 1/2 + 1 / 2 ^ 54"
  using float_sub_le_half [of a b] by simp

section \<open>The proximity lookup\<close>

lemma find_closest_coordinates_find:
  "find_closest_coordinates la lo t records =
     List.find (\<lambda>r. \<bar>float_sub (lat r) la\<bar> \<le> t \<and> \<bar>float_sub (lon r) lo\<bar> \<le> t) records"
  by (induction records) simp_all


text \<open>
  Claim C6, as the code has it. For every table and query, \<^verbatim>\<open>find_closest_coordinates\<close>
  returns nothing exactly when no row passes the test of line 100 on both axes, and
  otherwise returns the first row in storage order that passes it: the row at an index
  \<open>i\<close> that passes while no row before \<open>i\<close> does. The test subtracts doubles: what it
  compares with the threshold is the exact difference rounded to the nearest double. With
  the threshold 0.5, which the handler uses, a row passes exactly when its exact
  difference from the query is at most \<open>0.5 + 2\<^sup>-\<^sup>5\<^sup>4\<close> on both axes. So a row at exactly
  0.5 on both axes is matched, a row further than \<open>0.5 + 2\<^sup>-\<^sup>5\<^sup>4\<close> on either axis is never
  returned, and a row between 0.5 and \<open>0.5 + 2\<^sup>-\<^sup>5\<^sup>4\<close> away is matched.
\<close>

theorem find_closest_coordinates_first_match:
  "(find_closest_coordinates la lo t records = None
      \<longleftrightarrow> (\<forall>r \<in> set records.
             \<not> (\<bar>float_sub (lat r) la\<bar> \<le> t \<and> \<bar>float_sub (lon r) lo\<bar> \<le> t)))
   \<and> (\<forall>r. find_closest_coordinates la lo t records = Some r
      \<longleftrightarrow> (\<exists>i < length records. records ! i = r
             \<and> \<bar>float_sub (lat r) la\<bar> \<le> t \<and> \<bar>float_sub (lon r) lo\<bar> \<le> t
             \<and> (\<forall>j < i. \<not> (\<bar>float_sub (lat (records ! j)) la\<bar> \<le> t
                           \<and> \<bar>float_sub (lon (records ! j)) lo\<bar> \<le> t))))
   \<and> (\<forall>r :: SoilData. (\<bar>float_sub (lat r) la\<bar> \<le> 0.5 \<and> \<bar>float_sub (lon r) lo\<bar> \<le> 0.5)
      \<longleftrightarrow> (\<bar>lat r - la\<bar> \<le> 0.5 + 1 / 2 ^ 54 \<and> \<bar>lon r - lo\<bar> \<le> 0.5 + 1 / 2 ^ 54))
   \<and> (\<forall>r. \<bar>lat r - la\<bar> = 0.5 \<and> \<bar>lon r - lo\<bar> = 0.5
          \<longrightarrow> find_closest_coordinates la lo 0.5 [r] = Some r)
   \<and> (\<forall>r. 0.5 + 1 / 2 ^ 54 < \<bar>lat r - la\<bar> \<or> 0.5 + 1 / 2 ^ 54 < \<bar>lon r - lo\<bar>
          \<longrightarrow> find_closest_coordinates la lo 0.5 records \<noteq> Some r)"
proof (intro conjI allI impI)
  show "find_closest_coordinates la lo t records = None
      \<longleftrightarrow> (\<forall>r \<in> set records.
             \<not> (\<bar>float_sub (lat r) la\<bar> \<le> t \<and> \<bar>float_sub (lon r) lo\<bar> \<le> t))"
    unfolding find_closest_coordinates_find find_None_iff by blast
next
  fix r :: SoilData
  show "find_closest_coordinates la lo t records = Some r
      \<longleftrightarrow> (\<exists>i < length records. records ! i = r
             \<and> \<bar>float_sub (lat r) la\<bar> \<le> t \<and> \<bar>float_sub (lon r) lo\<bar> \<le> t
             \<and> (\<forall>j < i. \<not> (\<bar>float_sub (lat (records ! j)) la\<bar> \<le> t
                           \<and> \<bar>float_sub (lon (records ! j)) lo\<bar> \<le> t)))"
    unfolding find_closest_coordinates_find find_Some_iff by auto
next
  fix r :: SoilData
  show "(\<bar>float_sub (lat r) la\<bar> \<le> 0.5 \<and> \<bar>float_sub (lon r) lo\<bar> \<le> 0.5)
      \<longleftrightarrow> (\<bar>lat r - la\<bar> \<le> 0.5 + 1 / 2 ^ 54 \<and> \<bar>lon r - lo\<bar> \<le> 0.5 + 1 / 2 ^ 54)"
    by (simp only: float_sub_le_threshold)
next
  fix r :: SoilData
  assume "\<bar>lat r - la\<bar> = 0.5 \<and> \<bar>lon r - lo\<bar> = 0.5"
  then have "\<bar>float_sub (lat r) la\<bar> \<le> 0.5 \<and> \<bar>float_sub (lon r) lo\<bar> \<le> 0.5"
    by (simp only: float_sub_le_threshold) simp
  then show "find_closest_coordinates la lo 0.5 [r] = Some r" by simp
next
  fix r :: SoilData
  assume far: "0.5 + 1 / 2 ^ 54 < \<bar>lat r - la\<bar> \<or> 0.5 + 1 / 2 ^ 54 < \<bar>lon r - lo\<bar>"
  show "find_closest_coordinates la lo 0.5 records \<noteq> Some r"
  proof
    assume "find_closest_coordinates la lo 0.5 records = Some r"
    then have "\<bar>float_sub (lat r) la\<bar> \<le> 0.5 \<and> \<bar>float_sub (lon r) lo\<bar> \<le> 0.5"
      unfolding find_closest_coordinates_find find_Some_iff by auto
    then have "\<bar>lat r - la\<bar> \<le> 0.5 + 1 / 2 ^ 54 \<and> \<bar>lon r - lo\<bar> \<le> 0.5 + 1 / 2 ^ 54"
      by (simp only: float_sub_le_threshold)
    with far show False by linarith
  qed
qed

text \<open>
  The query (10, 20) with threshold 0.5: a table whose second row is at exactly 0.5 on
  both axes behind a row that is too far north; a table with no row in reach; a single row
  at exactly the threshold; a row 0.75 away in longitude; and a row whose exact distance
  in latitude is \<open>0.5 + 2\<^sup>-\<^sup>5\<^sup>4\<close>.
\<close>

theorem find_closest_coordinates_first_match_witness:
  "find_closest_coordinates 10 20 0.5
      [sample_record 11 20 (now_utc 0), sample_record 10.5 19.5 (now_utc 0),
       sample_record 10 20 (now_utc 0)] = Some (sample_record 10.5 19.5 (now_utc 0))
   \<and> find_closest_coordinates 10 20 0.5
      [sample_record 11 20 (now_utc 0), sample_record 10 20.75 (now_utc 0)] = None
   \<and> find_closest_coordinates 10 20 0.5 [sample_record 10.5 20.5 (now_utc 0)]
      = Some (sample_record 10.5 20.5 (now_utc 0))
   \<and> find_closest_coordinates 10 20 0.5
      [sample_record 10.5 20.75 (now_utc 0), sample_record 10 20 (now_utc 0)]
      \<noteq> Some (sample_record 10.5 20.75 (now_utc 0))
   \<and> \<bar>float_sub (lat (sample_record (1/4) 20 (now_utc 0))) (- (1/4 + 1 / 2 ^ 54))\<bar> \<le> 0.5"
proof -
  note main = find_closest_coordinates_first_match
  let ?far = "sample_record 11 20 (now_utc 0)"
  let ?edge = "sample_record 10.5 19.5 (now_utc 0)"
  let ?corner = "sample_record 10.5 20.5 (now_utc 0)"
  let ?over = "sample_record 10.5 20.75 (now_utc 0)"
  let ?east = "sample_record 10 20.75 (now_utc 0)"
  let ?same = "sample_record 10 20 (now_utc 0)"
  let ?tie = "sample_record (1/4) 20 (now_utc 0)"
  let ?rs = "[?far, ?edge, ?same]"
  have "\<exists>i < length ?rs. ?rs ! i = ?edge
          \<and> \<bar>float_sub (lat ?edge) 10\<bar> \<le> 0.5 \<and> \<bar>float_sub (lon ?edge) 20\<bar> \<le> 0.5
          \<and> (\<forall>j < i. \<not> (\<bar>float_sub (lat (?rs ! j)) 10\<bar> \<le> 0.5
                        \<and> \<bar>float_sub (lon (?rs ! j)) 20\<bar> \<le> 0.5))"
    by (rule exI [of _ 1]) (simp add: sample_record_def float_sub_test)
  with main [of 10 20 "0.5" "?rs"]
  have a: "find_closest_coordinates 10 20 0.5 ?rs = Some ?edge"
    by blast
  have "\<forall>r \<in> set [?far, ?east].
          \<not> (\<bar>float_sub (lat r) 10\<bar> \<le> 0.5 \<and> \<bar>float_sub (lon r) 20\<bar> \<le> 0.5)"
    by (simp add: sample_record_def float_sub_test)
  with main [of 10 20 "0.5" "[?far, ?east]"]
  have b: "find_closest_coordinates 10 20 0.5 [?far, ?east] = None"
    by blast
  have "\<bar>lat ?corner - 10\<bar> = 0.5 \<and> \<bar>lon ?corner - 20\<bar> = 0.5"
    by (simp add: sample_record_def)
  with main [of 10 20 "0.5" "[]"]
  have c: "find_closest_coordinates 10 20 0.5 [?corner] = Some ?corner"
    by blast
  have "0.5 + 1 / 2 ^ 54 < \<bar>lat ?over - 10\<bar> \<or> 0.5 + 1 / 2 ^ 54 < \<bar>lon ?over - 20\<bar>"
    by (simp add: sample_record_def)
  with main [of 10 20 "0.5" "[?over, ?same]"]
  have d: "find_closest_coordinates 10 20 0.5 [?over, ?same] \<noteq> Some ?over"
    by blast
  have "\<bar>lat ?tie - (- (1/4 + 1 / 2 ^ 54))\<bar> \<le> 0.5 + 1 / 2 ^ 54
        \<and> \<bar>lon ?tie - 20\<bar> \<le> 0.5 + 1 / 2 ^ 54"
    by (simp add: sample_record_def)
  with main [of "- (1/4 + 1 / 2 ^ 54)" 20 "0.5" "[]"]
  have e: "\<bar>float_sub (lat ?tie) (- (1/4 + 1 / 2 ^ 54))\<bar> \<le> 0.5"
    by blast
  from a b c d e show ?thesis by blast
qed

text \<open>
  Against the claim as first stated: the row at latitude 0.25 is returned for the query
  latitude \<open>-(0.25 + 2\<^sup>-\<^sup>5\<^sup>4)\<close>, although its exact distance is more than the threshold.
\<close>

theorem find_closest_coordinates_rounding_counterexample:
  "find_closest_coordinates (- (1/4 + 1 / 2 ^ 54)) 20 0.5 [sample_record (1/4) 20 (now_utc 0)]
     = Some (sample_record (1/4) 20 (now_utc 0))
   \<and> 0.5 < \<bar>lat (sample_record (1/4) 20 (now_utc 0)) - (- (1/4 + 1 / 2 ^ 54))\<bar>
   \<and> \<bar>lat (sample_record (1/4) 20 (now_utc 0)) - (- (1/4 + 1 / 2 ^ 54))\<bar> = 0.5 + 1 / 2 ^ 54"
  by code_simp

section \<open>The pH rules\<close>

lemma ph_msg_not_rain:
  "msg_ph_optimal \<noteq> msg_rain x" "msg_ph_lime \<noteq> msg_rain x" "msg_ph_sulfur \<noteq> msg_rain x"
  by (simp_all add: msg_ph_optimal_def msg_ph_lime_def msg_ph_sulfur_def msg_rain_def)

lemma ph_msg_not_wind:
  "msg_ph_optimal \<noteq> msg_wind x" "msg_ph_lime \<noteq> msg_wind x" "msg_ph_sulfur \<noteq> msg_wind x"
  by (simp_all add: msg_ph_optimal_def msg_ph_lime_def msg_ph_sulfur_def msg_wind_def)

lemma ph_msg_distinct:
  "msg_ph_optimal \<noteq> msg_ph_lime" "msg_ph_optimal \<noteq> msg_ph_sulfur" "msg_ph_lime \<noteq> msg_ph_sulfur"
  "msg_ph_optimal \<noteq> msg_nitrogen" "msg_ph_lime \<noteq> msg_nitrogen" "msg_ph_sulfur \<noteq> msg_nitrogen"
  "msg_ph_optimal \<noteq> msg_moisture" "msg_ph_lime \<noteq> msg_moisture" "msg_ph_sulfur \<noteq> msg_moisture"
  "msg_ph_optimal \<noteq> msg_cec" "msg_ph_lime \<noteq> msg_cec" "msg_ph_sulfur \<noteq> msg_cec"
  by (simp_all add: msg_ph_optimal_def msg_ph_lime_def msg_ph_sulfur_def msg_nitrogen_def
        msg_moisture_def msg_cec_def)

lemma weather_rules_keeps:
  assumes "weather_rules wd recs = Inr recs'"
      and "\<And>x. s \<noteq> msg_rain x" and "\<And>x. s \<noteq> msg_wind x"
  shows "s \<in> set recs' \<longleftrightarrow> s \<in> set recs"
  using assms
  by (auto simp: weather_rules_def ebind_Inr_iff Let_def split: if_splits)

lemma generate_recommendations_numbers:
  assumes run: "generate_recommendations order sd wd = Inr recs"
  shows "\<exists>p n m c. as_number (get_or_0 sd ''phh2o'') = Inr p
           \<and> as_number (get_or_0 sd ''nitrogen'') = Inr n
           \<and> as_number (get_or_0 sd ''wv0010'') = Inr m
           \<and> as_number (get_or_0 sd ''cec'') = Inr c"
proof -
  obtain p where p: "as_number (get_or_0 sd ''phh2o'') = Inr p"
    using run
    by (cases "as_number (get_or_0 sd ''phh2o'')")
       (simp_all add: generate_recommendations_def Let_def)
  obtain n where n: "as_number (get_or_0 sd ''nitrogen'') = Inr n"
    using run p
    by (cases "as_number (get_or_0 sd ''nitrogen'')")
       (simp_all add: generate_recommendations_def Let_def)
  obtain m where m: "as_number (get_or_0 sd ''wv0010'') = Inr m"
    using run p n
    by (cases "as_number (get_or_0 sd ''wv0010'')")
       (simp_all add: generate_recommendations_def Let_def)
  obtain c where c: "as_number (get_or_0 sd ''cec'') = Inr c"
    using run p n m
    by (cases "as_number (get_or_0 sd ''cec'')")
       (simp_all add: generate_recommendations_def Let_def)
  from p n m c show ?thesis by blast
qed

lemma generate_recommendations_ph:
  assumes run: "generate_recommendations order sd wd = Inr recs"
      and ord: "\<forall>xs. set (order xs) = set xs"
  shows "\<exists>p. as_number (get_or_0 sd ''phh2o'') = Inr p
           \<and> (msg_ph_optimal \<in> set recs \<longleftrightarrow> 60 < p \<and> p < 75)
           \<and> (msg_ph_lime \<in> set recs \<longleftrightarrow> p < 60)
           \<and> (msg_ph_sulfur \<in> set recs \<longleftrightarrow> 75 < p)"
proof -
  from generate_recommendations_numbers [OF run] obtain p n m c where
    p: "as_number (get_or_0 sd ''phh2o'') = Inr p" and
    n: "as_number (get_or_0 sd ''nitrogen'') = Inr n" and
    m: "as_number (get_or_0 sd ''wv0010'') = Inr m" and
    c: "as_number (get_or_0 sd ''cec'') = Inr c"
    by blast
  define recs1 where "recs1 = (if n < 100 then set_add msg_nitrogen [] else [])"
  define recs2 where "recs2 = (if m < 0.2 then set_add msg_moisture recs1 else recs1)"
  define recs3 where "recs3 = (if 6 < p / 10 \<and> p / 10 < 7.5 then set_add msg_ph_optimal recs2
                        else if p / 10 < 6 then set_add msg_ph_lime recs2
                        else if 7.5 < p / 10 then set_add msg_ph_sulfur recs2
                        else recs2)"
  define recs4 where "recs4 = (if 10 \<le> c then set_add msg_cec recs3 else recs3)"
  have "generate_recommendations order sd wd
          = ebind (weather_rules wd recs4) (\<lambda>recs5. Inr (order recs5))"
    by (simp add: generate_recommendations_def Let_def p n m c recs1_def recs2_def recs3_def
          recs4_def)
  with run obtain recs5 where w: "weather_rules wd recs4 = Inr recs5" and r: "recs = order recs5"
    by (auto simp: ebind_Inr_iff)
  have mem: "\<And>s. s \<in> set recs \<longleftrightarrow> s \<in> set recs5"
    using ord r by simp
  note keep = weather_rules_keeps [OF w]
  have s12: "msg_ph_optimal \<notin> set recs2" "msg_ph_lime \<notin> set recs2" "msg_ph_sulfur \<notin> set recs2"
    using ph_msg_distinct by (auto simp: recs1_def recs2_def split: if_splits)
  have a: "msg_ph_optimal \<in> set recs \<longleftrightarrow> 60 < p \<and> p < 75"
    unfolding mem keep [of msg_ph_optimal, OF ph_msg_not_rain(1) ph_msg_not_wind(1)]
    using s12 ph_msg_distinct by (auto simp: recs4_def recs3_def)
  have b: "msg_ph_lime \<in> set recs \<longleftrightarrow> p < 60"
    unfolding mem keep [of msg_ph_lime, OF ph_msg_not_rain(2) ph_msg_not_wind(2)]
    using s12 ph_msg_distinct by (auto simp: recs4_def recs3_def)
  have c: "msg_ph_sulfur \<in> set recs \<longleftrightarrow> 75 < p"
    unfolding mem keep [of msg_ph_sulfur, OF ph_msg_not_rain(3) ph_msg_not_wind(3)]
    using s12 ph_msg_distinct by (auto simp: recs4_def recs3_def)
  from p a b c show ?thesis by blast
qed


text \<open>
  The rules return a list whenever the four inputs are numbers and there is no forecast.
\<close>

lemma generate_recommendations_returns:
  assumes "as_number (get_or_0 sd ''phh2o'') = Inr p"
      and "as_number (get_or_0 sd ''nitrogen'') = Inr n"
      and "as_number (get_or_0 sd ''wv0010'') = Inr m"
      and "as_number (get_or_0 sd ''cec'') = Inr c"
      and "\<not> truthy wd"
  shows "\<exists>recs. generate_recommendations order sd wd = Inr recs"
  using assms by (simp add: generate_recommendations_def Let_def weather_rules_def)

text \<open>
  Claim C8. Whenever \<^verbatim>\<open>generate_recommendations\<close> returns, its result holds at most one
  of the three pH advisories. With \<open>p\<close> the \<^verbatim>\<open>phh2o\<close> input, the optimal advisory is in
  the result exactly when \<open>6 < p / 10 < 7.5\<close>; the lime advisory exactly when that test
  fails and \<open>p / 10 < 6\<close>; the sulfur advisory exactly when both fail and \<open>7.5 < p / 10\<close>.
  For \<open>p = 65\<close> the only pH advisory is the optimal one, for \<open>p = 50\<close> the lime one, for
  \<open>p = 80\<close> the sulfur one. The order in which the set is listed may be any one that
  keeps its members.
\<close>

theorem generate_recommendations_ph_exclusive:
  assumes "generate_recommendations order sd wd = Inr recs"
      and "\<forall>xs. set (order xs) = set xs"
  shows "card (set recs \<inter> {msg_ph_optimal, msg_ph_lime, msg_ph_sulfur}) \<le> 1
     \<and> (\<exists>p. as_number (get_or_0 sd ''phh2o'') = Inr p
           \<and> (msg_ph_optimal \<in> set recs \<longleftrightarrow> 6 < p / 10 \<and> p / 10 < 7.5)
           \<and> (msg_ph_lime \<in> set recs \<longleftrightarrow> \<not> (6 < p / 10 \<and> p / 10 < 7.5) \<and> p / 10 < 6)
           \<and> (msg_ph_sulfur \<in> set recs
                 \<longleftrightarrow> \<not> (6 < p / 10 \<and> p / 10 < 7.5) \<and> \<not> p / 10 < 6 \<and> 7.5 < p / 10))
     \<and> (map_of sd ''phh2o'' = Some (PNum 65)
           \<longrightarrow> set recs \<inter> {msg_ph_optimal, msg_ph_lime, msg_ph_sulfur} = {msg_ph_optimal})
     \<and> (map_of sd ''phh2o'' = Some (PNum 50)
           \<longrightarrow> set recs \<inter> {msg_ph_optimal, msg_ph_lime, msg_ph_sulfur} = {msg_ph_lime})
     \<and> (map_of sd ''phh2o'' = Some (PNum 80)
           \<longrightarrow> set recs \<inter> {msg_ph_optimal, msg_ph_lime, msg_ph_sulfur} = {msg_ph_sulfur})"
proof -
  from generate_recommendations_ph [OF assms] obtain p where
    p: "as_number (get_or_0 sd ''phh2o'') = Inr p" and
    a: "msg_ph_optimal \<in> set recs \<longleftrightarrow> 60 < p \<and> p < 75" and
    b: "msg_ph_lime \<in> set recs \<longleftrightarrow> p < 60" and
    c: "msg_ph_sulfur \<in> set recs \<longleftrightarrow> 75 < p"
    by blast
  let ?ph = "{msg_ph_optimal, msg_ph_lime, msg_ph_sulfur}"
  have sub: "set recs \<inter> ?ph = {} \<or> set recs \<inter> ?ph = {msg_ph_optimal}
             \<or> set recs \<inter> ?ph = {msg_ph_lime} \<or> set recs \<inter> ?ph = {msg_ph_sulfur}"
    using a b c by auto
  then have one: "card (set recs \<inter> ?ph) \<le> 1"
    by (elim disjE) simp_all
  have two: "\<exists>p. as_number (get_or_0 sd ''phh2o'') = Inr p
           \<and> (msg_ph_optimal \<in> set recs \<longleftrightarrow> 6 < p / 10 \<and> p / 10 < 7.5)
           \<and> (msg_ph_lime \<in> set recs \<longleftrightarrow> \<not> (6 < p / 10 \<and> p / 10 < 7.5) \<and> p / 10 < 6)
           \<and> (msg_ph_sulfur \<in> set recs
                 \<longleftrightarrow> \<not> (6 < p / 10 \<and> p / 10 < 7.5) \<and> \<not> p / 10 < 6 \<and> 7.5 < p / 10)"
    using p a b c by (intro exI [of _ p]) auto
  have v65: "set recs \<inter> ?ph = {msg_ph_optimal}" if "map_of sd ''phh2o'' = Some (PNum 65)"
  proof -
    from that p have "p = 65" by (simp add: get_or_0_Some)
    with a b c show ?thesis by auto
  qed
  have v50: "set recs \<inter> ?ph = {msg_ph_lime}" if "map_of sd ''phh2o'' = Some (PNum 50)"
  proof -
    from that p have "p = 50" by (simp add: get_or_0_Some)
    with a b c show ?thesis by auto
  qed
  have v80: "set recs \<inter> ?ph = {msg_ph_sulfur}" if "map_of sd ''phh2o'' = Some (PNum 80)"
  proof -
    from that p have "p = 80" by (simp add: get_or_0_Some)
    with a b c show ?thesis by auto
  qed
  from one two v65 v50 v80 show ?thesis by blast
qed

text \<open>
  Three runs, with the set listed in reverse order of insertion: \<open>p = 65\<close> with a rainy
  and windy forecast, \<open>p = 50\<close> and \<open>p = 80\<close> without a forecast.
\<close>

theorem generate_recommendations_ph_exclusive_witness:
  "generate_recommendations rev (sample_soil_dict (PNum 50) (PNum 65)) (PList [sample_day 80 25])
     = Inr [msg_wind 25, msg_rain 80, msg_cec, msg_ph_optimal, msg_nitrogen]
   \<and> set [msg_wind 25, msg_rain 80, msg_cec, msg_ph_optimal, msg_nitrogen]
        \<inter> {msg_ph_optimal, msg_ph_lime, msg_ph_sulfur} = {msg_ph_optimal}
   \<and> generate_recommendations rev (sample_soil_dict (PNum 150) (PNum 50)) PNone
     = Inr [msg_cec, msg_ph_lime]
   \<and> set [msg_cec, msg_ph_lime] \<inter> {msg_ph_optimal, msg_ph_lime, msg_ph_sulfur} = {msg_ph_lime}
   \<and> generate_recommendations rev (sample_soil_dict (PNum 150) (PNum 80)) PNone
     = Inr [msg_cec, msg_ph_sulfur]
   \<and> set [msg_cec, msg_ph_sulfur] \<inter> {msg_ph_optimal, msg_ph_lime, msg_ph_sulfur} = {msg_ph_sulfur}"
proof -
  note main = generate_recommendations_ph_exclusive
  have ord: "\<forall>xs :: string list. set (rev xs) = set xs" by simp
  have r65: "generate_recommendations rev (sample_soil_dict (PNum 50) (PNum 65)) (PList [sample_day 80 25])
     = Inr [msg_wind 25, msg_rain 80, msg_cec, msg_ph_optimal, msg_nitrogen]"
    by code_simp
  have r50: "generate_recommendations rev (sample_soil_dict (PNum 150) (PNum 50)) PNone
     = Inr [msg_cec, msg_ph_lime]"
    by code_simp
  have r80: "generate_recommendations rev (sample_soil_dict (PNum 150) (PNum 80)) PNone
     = Inr [msg_cec, msg_ph_sulfur]"
    by code_simp
  have m65: "map_of (sample_soil_dict (PNum 50) (PNum 65)) ''phh2o'' = Some (PNum 65)"
    by (simp add: sample_soil_dict_def)
  have m50: "map_of (sample_soil_dict (PNum 150) (PNum 50)) ''phh2o'' = Some (PNum 50)"
    by (simp add: sample_soil_dict_def)
  have m80: "map_of (sample_soil_dict (PNum 150) (PNum 80)) ''phh2o'' = Some (PNum 80)"
    by (simp add: sample_soil_dict_def)
  note c65 = main [OF r65 ord, THEN conjunct2, THEN conjunct2, THEN conjunct1, THEN mp, OF m65]
  note c50 = main [OF r50 ord, THEN conjunct2, THEN conjunct2, THEN conjunct2, THEN conjunct1,
      THEN mp, OF m50]
  note c80 = main [OF r80 ord, THEN conjunct2, THEN conjunct2, THEN conjunct2, THEN conjunct2,
      THEN mp, OF m80]
  show ?thesis by (intro conjI r65 c65 r50 c50 r80 c80)
qed

text \<open>
  Claim C10. At the two boundary values the result holds no pH advisory at all: when
  \<^verbatim>\<open>generate_recommendations\<close> returns for a \<^verbatim>\<open>phh2o\<close> input of exactly 60 (pH 6.0) or
  exactly 75 (pH 7.5), none of the optimal, lime and sulfur advisories is in its result.
\<close>

theorem generate_recommendations_ph_boundary:
  assumes "generate_recommendations order sd wd = Inr recs"
      and "\<forall>xs. set (order xs) = set xs"
  shows "(map_of sd ''phh2o'' = Some (PNum 60)
           \<longrightarrow> set recs \<inter> {msg_ph_optimal, msg_ph_lime, msg_ph_sulfur} = {})
     \<and> (map_of sd ''phh2o'' = Some (PNum 75)
           \<longrightarrow> set recs \<inter> {msg_ph_optimal, msg_ph_lime, msg_ph_sulfur} = {})"
proof -
  from generate_recommendations_ph [OF assms] obtain p where
    p: "as_number (get_or_0 sd ''phh2o'') = Inr p" and
    a: "msg_ph_optimal \<in> set recs \<longleftrightarrow> 60 < p \<and> p < 75" and
    b: "msg_ph_lime \<in> set recs \<longleftrightarrow> p < 60" and
    c: "msg_ph_sulfur \<in> set recs \<longleftrightarrow> 75 < p"
    by blast
  let ?ph = "{msg_ph_optimal, msg_ph_lime, msg_ph_sulfur}"
  have v60: "set recs \<inter> ?ph = {}" if "map_of sd ''phh2o'' = Some (PNum 60)"
  proof -
    from that p have "p = 60" by (simp add: get_or_0_Some)
    with a b c show ?thesis by auto
  qed
  have v75: "set recs \<inter> ?ph = {}" if "map_of sd ''phh2o'' = Some (PNum 75)"
  proof -
    from that p have "p = 75" by (simp add: get_or_0_Some)
    with a b c show ?thesis by auto
  qed
  from v60 v75 show ?thesis by blast
qed

text \<open>Two runs at the boundaries, one with a forecast and one without.\<close>

theorem generate_recommendations_ph_boundary_witness:
  "generate_recommendations rev (sample_soil_dict (PNum 50) (PNum 60)) (PList [sample_day 80 25])
     = Inr [msg_wind 25, msg_rain 80, msg_cec, msg_nitrogen]
   \<and> set [msg_wind 25, msg_rain 80, msg_cec, msg_nitrogen]
        \<inter> {msg_ph_optimal, msg_ph_lime, msg_ph_sulfur} = {}
   \<and> generate_recommendations rev (sample_soil_dict (PNum 150) (PNum 75)) PNone = Inr [msg_cec]
   \<and> set [msg_cec] \<inter> {msg_ph_optimal, msg_ph_lime, msg_ph_sulfur} = {}"
proof -
  note main = generate_recommendations_ph_boundary
  have ord: "\<forall>xs :: string list. set (rev xs) = set xs" by simp
  have r60: "generate_recommendations rev (sample_soil_dict (PNum 50) (PNum 60)) (PList [sample_day 80 25])
     = Inr [msg_wind 25, msg_rain 80, msg_cec, msg_nitrogen]"
    by code_simp
  have r75: "generate_recommendations rev (sample_soil_dict (PNum 150) (PNum 75)) PNone = Inr [msg_cec]"
    by code_simp
  have m60: "map_of (sample_soil_dict (PNum 50) (PNum 60)) ''phh2o'' = Some (PNum 60)"
    by (simp add: sample_soil_dict_def)
  have m75: "map_of (sample_soil_dict (PNum 150) (PNum 75)) ''phh2o'' = Some (PNum 75)"
    by (simp add: sample_soil_dict_def)
  note c60 = main [OF r60 ord, THEN conjunct1, THEN mp, OF m60]
  note c75 = main [OF r75 ord, THEN conjunct2, THEN mp, OF m75]
  show ?thesis by (intro conjI r60 c60 r75 c75)
qed

section \<open>Measurements that are None\<close>

text \<open>
  A key that the dictionary lacks is read as 0 by \<^verbatim>\<open>soil_data.get(key, 0)\<close>: the rules
  see the same input as with the key mapped to 0.
\<close>

lemma generate_recommendations_absent_key:
  assumes "map_of sd k = None"
  shows "generate_recommendations order sd wd = generate_recommendations order ((k, PNum 0) # sd) wd"
proof -
  have "get_or_0 ((k, PNum 0) # sd) k' = get_or_0 sd k'" for k'
    using assms by (simp add: get_or_0_def)
  then show ?thesis by (simp add: generate_recommendations_def)
qed


lemma generate_recommendations_TypeError:
  assumes "k \<in> {''nitrogen'', ''wv0010'', ''phh2o'', ''cec''}"
      and "map_of sd k = Some PNone"
  shows "generate_recommendations order sd wd = Inl TypeError"
proof -
  have none: "as_number (get_or_0 sd k) = Inl TypeError"
    using assms(2) by (simp add: get_or_0_Some)
  consider (p) "k = ''phh2o''" | (n) "k = ''nitrogen''" | (m) "k = ''wv0010''" | (c) "k = ''cec''"
    using assms(1) by blast
  then show ?thesis
  proof cases
    case p
    with none show ?thesis by (simp add: generate_recommendations_def Let_def)
  next
    case n
    with none as_number_cases [of "get_or_0 sd ''phh2o''"]
    show ?thesis by (auto simp: generate_recommendations_def Let_def)
  next
    case m
    with none as_number_cases [of "get_or_0 sd ''phh2o''"]
      as_number_cases [of "get_or_0 sd ''nitrogen''"]
    show ?thesis by (auto simp: generate_recommendations_def Let_def)
  next
    case c
    with none as_number_cases [of "get_or_0 sd ''phh2o''"]
      as_number_cases [of "get_or_0 sd ''nitrogen''"]
      as_number_cases [of "get_or_0 sd ''wv0010''"]
    show ?thesis by (auto simp: generate_recommendations_def Let_def)
  qed
qed

text \<open>
  Claim C2. The default 0 of \<^verbatim>\<open>soil_data.get(key, 0)\<close> applies to a key that is not in
  the dictionary. \<^verbatim>\<open>analyze_soil\<close> always passes the four keys, and passes \<^verbatim>\<open>None\<close> for
  a measurement it did not find: for every dictionary that maps one of the four keys to
  \<^verbatim>\<open>None\<close>, \<^verbatim>\<open>generate_recommendations\<close> does not return a list; it raises
  \<^verbatim>\<open>TypeError\<close>, whatever the other inputs.
\<close>

theorem generate_recommendations_none_raises:
  assumes "k \<in> {''nitrogen'', ''wv0010'', ''phh2o'', ''cec''}"
      and "map_of sd k = Some PNone"
  shows "generate_recommendations order sd wd = Inl TypeError"
  using assms by (rule generate_recommendations_TypeError)

text \<open>The dictionary that \<^verbatim>\<open>analyze_soil\<close> builds when the nitrogen layer is missing.\<close>

theorem generate_recommendations_none_raises_witness:
  "''nitrogen'' \<in> {''nitrogen'', ''wv0010'', ''phh2o'', ''cec''}
   \<and> map_of (sample_soil_dict PNone (PNum 65)) ''nitrogen'' = Some PNone
   \<and> generate_recommendations rev (sample_soil_dict PNone (PNum 65)) (PList [sample_day 80 25])
       = Inl TypeError"
proof -
  have k: "''nitrogen'' \<in> {''nitrogen'', ''wv0010'', ''phh2o'', ''cec''}" by simp
  have m: "map_of (sample_soil_dict PNone (PNum 65)) ''nitrogen'' = Some PNone"
    by (simp add: sample_soil_dict_def)
  note raised = generate_recommendations_none_raises [OF k m, of rev "PList [sample_day 80 25]"]
  show ?thesis by (intro conjI k m raised)
qed

section \<open>The handler: lookup, fetch and store\<close>

lemma analyze_soil_found:
  assumes "find_closest_coordinates la lo 0.5 (db s) = Some found"
  shows "analyze_soil e la lo s =
     (if two_days < clock_lookup e - (wall (date_recorded found)
                       - (case tzinfo (date_recorded found) of None \<Rightarrow> 0 | Some off \<Rightarrow> off))
      then fetch_and_store e la lo (s\<lparr>db := remove1 found (db s)\<rparr>)
      else (Inr (found_response (found\<lparr>date_recorded := as_utc (date_recorded found)\<rparr>)), s))"
  using assms
  by (simp add: analyze_soil_def Let_def dt_sub_def as_utc_def now_utc_def split: option.splits)

lemma analyze_soil_miss:
  assumes "find_closest_coordinates la lo 0.5 (db s) = None"
  shows "analyze_soil e la lo s = fetch_and_store e la lo s"
  using assms by (simp add: analyze_soil_def)

lemma db_add_commit_Inr: "db_add_commit r table = Inr table' \<Longrightarrow> table' = table @ [r]"
  by (simp add: db_add_commit_def split: if_splits)

lemma fetch_and_store_db:
  "db (snd (fetch_and_store e la lo s)) = db s
   \<or> (\<exists>r. db (snd (fetch_and_store e la lo s)) = db s @ [r])"
  by (auto simp: fetch_and_store_def get_soil_data_def get_weather_data_def
        dest: db_add_commit_Inr split: sum.splits prod.splits)

lemma success_response_shape:
  "success_response m t h r = Inr resp \<Longrightarrow> \<exists>body. resp = Success_response body (PStr (recommendations r))"
  by (auto simp: success_response_def ebind_Inr_iff)

lemma fetch_and_store_not_found:
  "fst (fetch_and_store e la lo s) \<noteq> Inr (Found_response msg body pv rv)"
  by (auto simp: fetch_and_store_def get_soil_data_def get_weather_data_def
        dest: success_response_shape split: sum.splits prod.splits)

lemma new_record_of_Inr:
  assumes "new_record_of e la lo m wd = Inr (t, h, r)"
  shows "\<exists>recs. generate_recommendations (set_order e)
              [(''nitrogen'', m_nitrogen m), (''wv0010'', m_wv0010 m),
               (''phh2o'', m_phh2o m), (''cec'', m_cec m)] wd = Inr recs
          \<and> r = \<lparr>lat = la, lon = lo, nitrogen = m_nitrogen m,
                 nitrogen_uncertainty = m_nitrogen_uncertainty m,
                 ph = m_phh2o m, moisture = m_wv0010 m, cec = m_cec m,
                 temperature = t, humidity = h,
                 recommendations = join_str ''; '' recs, predictions = [],
                 date_recorded = now_utc (clock_store e)\<rparr>"
  using assms by (auto simp: new_record_of_def ebind_Inr_iff)

lemma fetch_and_store_Success:
  assumes "fetch_and_store e la lo s = (Inr (Success_response body rv), s')"
  shows "\<exists>sd wd m t h r. soil_data_of (soil_api e la lo) = Inr sd
           \<and> weather_data_of (weather_api e la lo) = Inr wd
           \<and> truthy sd \<and> truthy wd
           \<and> extract_measurements sd = Inr m
           \<and> new_record_of e la lo m wd = Inr (t, h, r)
           \<and> s' = \<lparr>db = db s @ [r],
                    http_log = http_log s @ [SoilGridsGET la lo, WeatherGET la lo]\<rparr>
           \<and> rv = PStr (recommendations r)"
  using assms
  by (auto simp: fetch_and_store_def get_soil_data_def get_weather_data_def
        dest!: success_response_shape db_add_commit_Inr split: sum.splits prod.splits if_splits)

lemma analyze_soil_Success:
  assumes "analyze_soil e la lo s = (Inr (Success_response body rv), s')"
  shows "\<exists>pre r recs sd wd m.
           db s' = pre @ [r] \<and> (pre = db s \<or> (\<exists>found. pre = remove1 found (db s)))
           \<and> http_log s' = http_log s @ [SoilGridsGET la lo, WeatherGET la lo]
           \<and> lat r = la \<and> lon r = lo
           \<and> date_recorded r = now_utc (clock_store e)
           \<and> soil_data_of (soil_api e la lo) = Inr sd
           \<and> weather_data_of (weather_api e la lo) = Inr wd
           \<and> extract_measurements sd = Inr m
           \<and> generate_recommendations (set_order e)
                [(''nitrogen'', m_nitrogen m), (''wv0010'', m_wv0010 m),
                 (''phh2o'', m_phh2o m), (''cec'', m_cec m)] wd = Inr recs
           \<and> recommendations r = join_str ''; '' recs
           \<and> rv = PStr (join_str ''; '' recs)"
proof -
  obtain s1 where run: "fetch_and_store e la lo s1 = (Inr (Success_response body rv), s')"
    and s1: "http_log s1 = http_log s" "db s1 = db s \<or> (\<exists>found. db s1 = remove1 found (db s))"
  proof (cases "find_closest_coordinates la lo 0.5 (db s)")
    case None
    with assms have "fetch_and_store e la lo s = (Inr (Success_response body rv), s')"
      by (simp add: analyze_soil_miss)
    then show ?thesis using that [of s] by simp
  next
    case (Some found)
    from assms analyze_soil_found [OF Some, of e]
    have "fetch_and_store e la lo (s\<lparr>db := remove1 found (db s)\<rparr>)
            = (Inr (Success_response body rv), s')"
      by (simp add: found_response_def split: if_splits)
    then show ?thesis using that [of "s\<lparr>db := remove1 found (db s)\<rparr>"] by auto
  qed
  from fetch_and_store_Success [OF run] obtain sd wd m t h r where
    sd: "soil_data_of (soil_api e la lo) = Inr sd" and
    wd: "weather_data_of (weather_api e la lo) = Inr wd" and
    m: "extract_measurements sd = Inr m" and
    new: "new_record_of e la lo m wd = Inr (t, h, r)" and
    s': "s' = \<lparr>db = db s1 @ [r], http_log = http_log s1 @ [SoilGridsGET la lo, WeatherGET la lo]\<rparr>" and
    rv: "rv = PStr (recommendations r)"
    by blast
  from new_record_of_Inr [OF new] obtain recs where
    recs: "generate_recommendations (set_order e)
              [(''nitrogen'', m_nitrogen m), (''wv0010'', m_wv0010 m),
               (''phh2o'', m_phh2o m), (''cec'', m_cec m)] wd = Inr recs" and
    r: "lat r = la" "lon r = lo" "date_recorded r = now_utc (clock_store e)"
       "recommendations r = join_str ''; '' recs"
    by auto
  have "db s' = db s1 @ [r]" "http_log s' = http_log s @ [SoilGridsGET la lo, WeatherGET la lo]"
    using s' s1(1) by simp_all
  with s1(2) sd wd m recs r rv show ?thesis by metis
qed

text \<open>A request on an empty table, answered by both services.\<close>

lemma sample_run:
  "analyze_soil (sample_env sample_soil_ok sample_weather_ok t t') a b (sample_state [])
     = (Inr (Success_response sample_body
              (PStr (join_str ''; '' [msg_cec, msg_ph_optimal, msg_nitrogen]))),
        \<lparr>db = [sample_stored a b t'], http_log = [SoilGridsGET a b, WeatherGET a b]\<rparr>)"
  apply (simp add: analyze_soil_def fetch_and_store_def get_soil_data_def get_weather_data_def
      sample_env_def sample_state_def sample_soil_ok_def sample_weather_ok_def
      soil_data_of_def weather_data_of_def sample_soil_body_def sample_weather_body_def
      sample_layer_def sample_day_def)
  apply (simp add: extract_measurements_def layer_values_def layer_mean_def new_record_of_def
      generate_recommendations_def get_or_0_def weather_rules_def Let_def py_div_def
      db_add_commit_def success_response_def sample_stored_def sample_record_def sample_body_def
      msg_nitrogen_def msg_cec_def msg_ph_optimal_def set_add_def)
  done


section \<open>Freshness of a record found\<close>

text \<open>
  Claim C7. Let a record be found within the threshold, let its \<^verbatim>\<open>date_recorded\<close> be read
  as a UTC instant (a value without time zone counts as UTC), and let \<open>age\<close> be the
  clock at the test minus that instant. If \<open>age\<close> is at most two days the handler answers
  with the record found and leaves the state alone; the answer is the \<^verbatim>\<open>found\<close> body
  exactly in that case. If \<open>age\<close> is more than two days, the row is deleted and the
  request goes on as a miss: it is the fetch on the table without that row, so the table
  afterwards is that table, or that table with one new row. Two days are 172800000000
  microseconds, so an age of exactly two days is fresh and one second more is stale.
\<close>

theorem analyze_soil_freshness:
  assumes "find_closest_coordinates la lo 0.5 (db s) = Some found"
      and "recorded_at = wall (date_recorded found)
             - (case tzinfo (date_recorded found) of None \<Rightarrow> 0 | Some off \<Rightarrow> off)"
      and "age = clock_lookup e - recorded_at"
  shows "(age \<le> two_days \<longrightarrow>
            analyze_soil e la lo s
              = (Inr (found_response (found\<lparr>date_recorded := as_utc (date_recorded found)\<rparr>)), s))
       \<and> (two_days < age \<longrightarrow>
            analyze_soil e la lo s = fetch_and_store e la lo (s\<lparr>db := remove1 found (db s)\<rparr>))
       \<and> ((\<exists>msg body pv rv. fst (analyze_soil e la lo s) = Inr (Found_response msg body pv rv))
            \<longleftrightarrow> age \<le> two_days)
       \<and> (two_days < age \<longrightarrow>
            db (snd (analyze_soil e la lo s)) = remove1 found (db s)
            \<or> (\<exists>r. db (snd (analyze_soil e la lo s)) = remove1 found (db s) @ [r]))
       \<and> two_days = 2 * 86400 * 1000000"
proof -
  note step = analyze_soil_found [OF assms(1), of e, folded assms(2), folded assms(3)]
  have fresh: "analyze_soil e la lo s
      = (Inr (found_response (found\<lparr>date_recorded := as_utc (date_recorded found)\<rparr>)), s)"
    if "age \<le> two_days"
    using that step by simp
  have stale: "analyze_soil e la lo s = fetch_and_store e la lo (s\<lparr>db := remove1 found (db s)\<rparr>)"
    if "two_days < age"
    using that step by simp
  have iff: "(\<exists>msg body pv rv. fst (analyze_soil e la lo s) = Inr (Found_response msg body pv rv))
            \<longleftrightarrow> age \<le> two_days"
  proof (cases "age \<le> two_days")
    case True
    then show ?thesis by (simp add: fresh found_response_def)
  next
    case False
    then have "two_days < age" by simp
    with stale fetch_and_store_not_found [of e la lo "s\<lparr>db := remove1 found (db s)\<rparr>"] False
    show ?thesis by simp
  qed
  have gone: "db (snd (analyze_soil e la lo s)) = remove1 found (db s)
            \<or> (\<exists>r. db (snd (analyze_soil e la lo s)) = remove1 found (db s) @ [r])"
    if "two_days < age"
    using stale [OF that] fetch_and_store_db [of e la lo "s\<lparr>db := remove1 found (db s)\<rparr>"]
    by simp
  have days: "two_days = 2 * 86400 * 1000000" by (simp add: two_days_def)
  from fresh stale iff gone days show ?thesis by blast
qed

text \<open>
  A record stored without time zone at instant 0, looked up from (10.125, 20.125) exactly
  two days later, and one second after that.
\<close>

theorem analyze_soil_freshness_witness:
  "find_closest_coordinates 10.125 20.125 0.5
       (db (sample_state [sample_record 10 20 \<lparr>wall = 0, tzinfo = None\<rparr>]))
     = Some (sample_record 10 20 \<lparr>wall = 0, tzinfo = None\<rparr>)
   \<and> analyze_soil (sample_env sample_soil_ok sample_weather_ok two_days (two_days + 7)) 10.125 20.125
         (sample_state [sample_record 10 20 \<lparr>wall = 0, tzinfo = None\<rparr>])
     = (Inr (found_response (sample_record 10 20 (now_utc 0))),
        sample_state [sample_record 10 20 \<lparr>wall = 0, tzinfo = None\<rparr>])
   \<and> analyze_soil (sample_env sample_soil_ok sample_weather_ok (two_days + 1000000) (two_days + 1000007))
         10.125 20.125 (sample_state [sample_record 10 20 \<lparr>wall = 0, tzinfo = None\<rparr>])
     = fetch_and_store
         (sample_env sample_soil_ok sample_weather_ok (two_days + 1000000) (two_days + 1000007))
         10.125 20.125 (sample_state [])"
proof -
  let ?r = "sample_record 10 20 \<lparr>wall = 0, tzinfo = None\<rparr>"
  let ?s = "sample_state [?r]"
  let ?eb = "sample_env sample_soil_ok sample_weather_ok two_days (two_days + 7)"
  let ?ec = "sample_env sample_soil_ok sample_weather_ok (two_days + 1000000) (two_days + 1000007)"
  have f: "find_closest_coordinates 10.125 20.125 0.5 (db ?s) = Some ?r"
    by (simp add: sample_state_def sample_record_def float_sub_test)
  have age1: "clock_lookup ?eb - (wall (date_recorded ?r)
                - (case tzinfo (date_recorded ?r) of None \<Rightarrow> 0 | Some off \<Rightarrow> off)) \<le> two_days"
    by (simp add: sample_env_def sample_record_def)
  have age2: "two_days < clock_lookup ?ec - (wall (date_recorded ?r)
                - (case tzinfo (date_recorded ?r) of None \<Rightarrow> 0 | Some off \<Rightarrow> off))"
    by (simp add: sample_env_def sample_record_def)
  note fresh = analyze_soil_freshness [OF f refl refl, where e = "?eb", THEN conjunct1, THEN mp, OF age1]
  note stale = analyze_soil_freshness [OF f refl refl, where e = "?ec", THEN conjunct2, THEN conjunct1,
      THEN mp, OF age2]
  have a: "analyze_soil ?eb 10.125 20.125 ?s = (Inr (found_response (sample_record 10 20 (now_utc 0))), ?s)"
    using fresh by (simp add: sample_record_def as_utc_def now_utc_def)
  have b: "analyze_soil ?ec 10.125 20.125 ?s = fetch_and_store ?ec 10.125 20.125 (sample_state [])"
    using stale by (simp add: sample_state_def)
  show ?thesis by (intro conjI f a b)
qed

section \<open>The cache hit\<close>




section \<open>How the recommendations are stored and returned\<close>

text \<open>
  Claim C4, as the code has it. For every request that ends with the \<^verbatim>\<open>success\<close> body,
  the list that \<^verbatim>\<open>generate_recommendations\<close> returned for the extracted measurements and
  the forecast is joined with \<^verbatim>\<open>"; "\<close>; the joined string is the \<^verbatim>\<open>recommendations\<close>
  column of the row appended to the table, and the \<^verbatim>\<open>recommendations\<close> entry of the
  body is that same string (line 196 returns \<^verbatim>\<open>new_record.recommendations\<close>), not a list.
\<close>

theorem analyze_soil_recommendations_joined:
  assumes "analyze_soil e la lo s = (Inr (Success_response body rv), s')"
  shows "\<exists>sd wd m recs pre r.
           soil_data_of (soil_api e la lo) = Inr sd
         \<and> weather_data_of (weather_api e la lo) = Inr wd
         \<and> extract_measurements sd = Inr m
         \<and> generate_recommendations (set_order e)
              [(''nitrogen'', m_nitrogen m), (''wv0010'', m_wv0010 m),
               (''phh2o'', m_phh2o m), (''cec'', m_cec m)] wd = Inr recs
         \<and> db s' = pre @ [r]
         \<and> recommendations r = join_str ''; '' recs
         \<and> rv = PStr (join_str ''; '' recs)"
  using analyze_soil_Success [OF assms] by blast

text \<open>The request at (10, 20) on an empty table.\<close>

theorem analyze_soil_recommendations_joined_witness:
  "analyze_soil (sample_env sample_soil_ok sample_weather_ok 1000 1007) 10 20 (sample_state [])
     = (Inr (Success_response sample_body
              (PStr (join_str ''; '' [msg_cec, msg_ph_optimal, msg_nitrogen]))),
        \<lparr>db = [sample_stored 10 20 1007], http_log = [SoilGridsGET 10 20, WeatherGET 10 20]\<rparr>)
   \<and> (\<exists>sd wd m recs pre r.
           soil_data_of (soil_api (sample_env sample_soil_ok sample_weather_ok 1000 1007) 10 20) = Inr sd
         \<and> weather_data_of (weather_api (sample_env sample_soil_ok sample_weather_ok 1000 1007) 10 20)
             = Inr wd
         \<and> extract_measurements sd = Inr m
         \<and> generate_recommendations (set_order (sample_env sample_soil_ok sample_weather_ok 1000 1007))
              [(''nitrogen'', m_nitrogen m), (''wv0010'', m_wv0010 m),
               (''phh2o'', m_phh2o m), (''cec'', m_cec m)] wd = Inr recs
         \<and> db \<lparr>db = [sample_stored 10 20 1007], http_log = [SoilGridsGET 10 20, WeatherGET 10 20]\<rparr>
             = pre @ [r]
         \<and> recommendations r = join_str ''; '' recs
         \<and> PStr (join_str ''; '' [msg_cec, msg_ph_optimal, msg_nitrogen]) = PStr (join_str ''; '' recs))"
proof -
  have run: "analyze_soil (sample_env sample_soil_ok sample_weather_ok 1000 1007) 10 20 (sample_state [])
     = (Inr (Success_response sample_body
              (PStr (join_str ''; '' [msg_cec, msg_ph_optimal, msg_nitrogen]))),
        \<lparr>db = [sample_stored 10 20 1007], http_log = [SoilGridsGET 10 20, WeatherGET 10 20]\<rparr>)"
    by (rule sample_run)
  show ?thesis by (intro conjI run analyze_soil_recommendations_joined [OF run])
qed

text \<open>
  The same request against the claim as first stated: the rules return a list of three
  advisories, and the body holds one string, which is not that list.
\<close>

theorem analyze_soil_recommendations_counterexample:
  "analyze_soil (sample_env sample_soil_ok sample_weather_ok 1000 1007) 10 20 (sample_state [])
     = (Inr (Success_response sample_body
              (PStr ''CEC is within the optimal range.; Soil pH is within the optimal range.; Consider adding nitrogen-based fertilizers.'')),
        \<lparr>db = [sample_stored 10 20 1007], http_log = [SoilGridsGET 10 20, WeatherGET 10 20]\<rparr>)
   \<and> generate_recommendations rev (sample_soil_dict (PNum 50) (PNum 65)) (PList [sample_day 40 10, sample_day 30 12])
     = Inr [msg_cec, msg_ph_optimal, msg_nitrogen]
   \<and> PStr ''CEC is within the optimal range.; Soil pH is within the optimal range.; Consider adding nitrogen-based fertilizers.''
     \<noteq> PList [PStr msg_cec, PStr msg_ph_optimal, PStr msg_nitrogen]"
proof -
  have run: "analyze_soil (sample_env sample_soil_ok sample_weather_ok 1000 1007) 10 20 (sample_state [])
     = (Inr (Success_response sample_body
              (PStr ''CEC is within the optimal range.; Soil pH is within the optimal range.; Consider adding nitrogen-based fertilizers.'')),
        \<lparr>db = [sample_stored 10 20 1007], http_log = [SoilGridsGET 10 20, WeatherGET 10 20]\<rparr>)"
    using sample_run [of 1000 1007 10 20]
    by (simp add: msg_cec_def msg_ph_optimal_def msg_nitrogen_def)
  have gen: "generate_recommendations rev (sample_soil_dict (PNum 50) (PNum 65))
       (PList [sample_day 40 10, sample_day 30 12]) = Inr [msg_cec, msg_ph_optimal, msg_nitrogen]"
    by code_simp
  show ?thesis by (intro conjI run gen) simp
qed

section \<open>A failed soil fetch\<close>

lemma soil_data_of_failure:
  assumes "status_code r \<noteq> 200
           \<or> (\<exists>props sd layers. getitem_key (json_body r) ''properties'' = Inr props
                 \<and> getitem_key props ''layers'' = Inr sd \<and> py_iter sd = Inr layers
                 \<and> all_values_none layers = Inr True)"
  shows "\<exists>msg. soil_data_of r = Inr (PDict [(''error'', PStr msg)])"
  using assms by (auto simp: soil_data_of_def)

lemma soil_data_of_PList:
  assumes "soil_data_of r = Inr (PList layers)"
  shows "layers \<noteq> []"
  using assms by (auto simp: soil_data_of_def ebind_Inr_iff split: if_splits)

lemma extract_measurements_error_dict:
  "extract_measurements (PDict [(''error'', v)]) = Inl TypeError"
  by (simp add: extract_measurements_def)

lemma fetch_and_store_soil_failure:
  assumes "soil_data_of (soil_api e la lo) = Inr (PDict [(''error'', PStr msg)])"
      and "weather_data_of (weather_api e la lo) = Inr wd"
  shows "fetch_and_store e la lo s =
           (if truthy wd then Inl TypeError else Inr (Error_response ''Failed to fetch data.'' 500),
            s\<lparr>http_log := http_log s @ [SoilGridsGET la lo, WeatherGET la lo]\<rparr>)"
  using assms
  by (simp add: fetch_and_store_def get_soil_data_def get_weather_data_def
        extract_measurements_error_dict)

text \<open>
  Claim C1. \<^verbatim>\<open>get_soil_data\<close> reports a failure (a status other than 200, or a payload
  whose layers hold only \<^verbatim>\<open>None\<close>) by returning a dictionary with the key
  \<^verbatim>\<open>error\<close>. That dictionary is not empty, so the test \<^verbatim>\<open>not soil_data\<close> of line 139
  does not see the failure. For every request that misses the cache (no record in reach,
  or a stale one, which is deleted first) while the soil fetch fails and the weather fetch
  returns a non-empty forecast, the handler goes on to line 142, subscripts the string
  \<^verbatim>\<open>'error'\<close> with \<^verbatim>\<open>'name'\<close> and ends with an unhandled \<^verbatim>\<open>TypeError\<close>, not with the
  fetch-failure answer of line 140. No row is added to the table.
\<close>

theorem analyze_soil_soil_fetch_failure:
  assumes "status_code (soil_api e la lo) \<noteq> 200
           \<or> (\<exists>props sd layers.
                 getitem_key (json_body (soil_api e la lo)) ''properties'' = Inr props
                 \<and> getitem_key props ''layers'' = Inr sd \<and> py_iter sd = Inr layers
                 \<and> all_values_none layers = Inr True)"
      and "weather_data_of (weather_api e la lo) = Inr wd"
      and "truthy wd"
  shows "(find_closest_coordinates la lo 0.5 (db s) = None \<longrightarrow>
            analyze_soil e la lo s
              = (Inl TypeError, s\<lparr>http_log := http_log s @ [SoilGridsGET la lo, WeatherGET la lo]\<rparr>))
       \<and> (\<forall>found. find_closest_coordinates la lo 0.5 (db s) = Some found
              \<and> two_days < clock_lookup e - (wall (date_recorded found)
                    - (case tzinfo (date_recorded found) of None \<Rightarrow> 0 | Some off \<Rightarrow> off))
            \<longrightarrow> analyze_soil e la lo s
                  = (Inl TypeError,
                     s\<lparr>db := remove1 found (db s),
                       http_log := http_log s @ [SoilGridsGET la lo, WeatherGET la lo]\<rparr>))"
proof -
  from soil_data_of_failure [OF assms(1)] obtain msg where
    soil: "soil_data_of (soil_api e la lo) = Inr (PDict [(''error'', PStr msg)])"
    by blast
  note fetch = fetch_and_store_soil_failure [OF soil assms(2)]
  have miss: "analyze_soil e la lo s
              = (Inl TypeError, s\<lparr>http_log := http_log s @ [SoilGridsGET la lo, WeatherGET la lo]\<rparr>)"
    if "find_closest_coordinates la lo 0.5 (db s) = None"
    using analyze_soil_miss [OF that, of e] fetch [of s] assms(3) by simp
  have stale: "analyze_soil e la lo s
                  = (Inl TypeError,
                     s\<lparr>db := remove1 found (db s),
                       http_log := http_log s @ [SoilGridsGET la lo, WeatherGET la lo]\<rparr>)"
    if "find_closest_coordinates la lo 0.5 (db s) = Some found
        \<and> two_days < clock_lookup e - (wall (date_recorded found)
              - (case tzinfo (date_recorded found) of None \<Rightarrow> 0 | Some off \<Rightarrow> off))"
    for found
    using analyze_soil_found [of la lo s found e] that
      fetch [of "s\<lparr>db := remove1 found (db s)\<rparr>"] assms(3)
    by simp
  from miss stale show ?thesis by blast
qed

text \<open>
  An empty table, a weather service that answers, and a soil service that answers 503,
  or 200 with a layer whose values are all \<^verbatim>\<open>None\<close>.
\<close>

theorem analyze_soil_soil_fetch_failure_witness:
  "status_code (soil_api (sample_env sample_unavailable sample_weather_ok 1000 1007) 10 20) \<noteq> 200
   \<and> analyze_soil (sample_env sample_unavailable sample_weather_ok 1000 1007) 10 20 (sample_state [])
     = (Inl TypeError, \<lparr>db = [], http_log = [SoilGridsGET 10 20, WeatherGET 10 20]\<rparr>)
   \<and> analyze_soil (sample_env sample_soil_null sample_weather_ok 1000 1007) 10 20 (sample_state [])
     = (Inl TypeError, \<lparr>db = [], http_log = [SoilGridsGET 10 20, WeatherGET 10 20]\<rparr>)"
proof -
  let ?ea = "sample_env sample_unavailable sample_weather_ok 1000 1007"
  let ?eb = "sample_env sample_soil_null sample_weather_ok 1000 1007"
  let ?wd = "PList [sample_day 40 10, sample_day 30 12]"
  have down: "status_code (soil_api ?ea 10 20) \<noteq> 200"
    by (simp add: sample_env_def sample_unavailable_def)
  have ha: "status_code (soil_api ?ea 10 20) \<noteq> 200
           \<or> (\<exists>props sd layers.
                 getitem_key (json_body (soil_api ?ea 10 20)) ''properties'' = Inr props
                 \<and> getitem_key props ''layers'' = Inr sd \<and> py_iter sd = Inr layers
                 \<and> all_values_none layers = Inr True)"
    using down by (rule disjI1)
  have hb: "status_code (soil_api ?eb 10 20) \<noteq> 200
           \<or> (\<exists>props sd layers.
                 getitem_key (json_body (soil_api ?eb 10 20)) ''properties'' = Inr props
                 \<and> getitem_key props ''layers'' = Inr sd \<and> py_iter sd = Inr layers
                 \<and> all_values_none layers = Inr True)"
    by (rule disjI2) (simp add: sample_env_def sample_soil_null_def sample_soil_body_def)
  have wa: "weather_data_of (weather_api ?ea 10 20) = Inr ?wd"
    by (simp add: sample_env_def sample_weather_ok_def sample_weather_body_def weather_data_of_def)
  have wb: "weather_data_of (weather_api ?eb 10 20) = Inr ?wd"
    by (simp add: sample_env_def sample_weather_ok_def sample_weather_body_def weather_data_of_def)
  have t: "truthy ?wd" by simp
  have miss: "find_closest_coordinates 10 20 0.5 (db (sample_state [])) = None"
    by (simp add: sample_state_def)
  note ra = analyze_soil_soil_fetch_failure [OF ha wa t, THEN conjunct1, THEN mp, OF miss]
  note rb = analyze_soil_soil_fetch_failure [OF hb wb t, THEN conjunct1, THEN mp, OF miss]
  have a: "analyze_soil ?ea 10 20 (sample_state [])
     = (Inl TypeError, \<lparr>db = [], http_log = [SoilGridsGET 10 20, WeatherGET 10 20]\<rparr>)"
    using ra by (simp add: sample_state_def)
  have b: "analyze_soil ?eb 10 20 (sample_state [])
     = (Inl TypeError, \<lparr>db = [], http_log = [SoilGridsGET 10 20, WeatherGET 10 20]\<rparr>)"
    using rb by (simp add: sample_state_def)
  show ?thesis by (intro conjI down a b)
qed

section \<open>Layers that the payload lacks\<close>

lemma find_layer_missing:
  assumes "\<forall>l \<in> set layers. getitem_key l ''name'' \<noteq> Inr (PStr name)"
      and "find_layer name layers = Inr v"
  shows "v = PNone"
  using assms
proof (induction layers)
  case Nil
  then show ?case by simp
next
  case (Cons l layers)
  then show ?case by (auto simp: ebind_Inr_iff split: if_splits)
qed

lemma layer_mean_PNone: "layer_mean PNone = Inr PNone"
  by (simp add: layer_mean_def)

lemma extract_measurements_Inr:
  assumes "extract_measurements sd = Inr m"
  shows "\<exists>layers nl pl wl cl.
           py_iter sd = Inr layers
         \<and> find_layer ''nitrogen'' layers = Inr nl
         \<and> find_layer ''phh2o'' layers = Inr pl
         \<and> find_layer ''wv0010'' layers = Inr wl
         \<and> find_layer ''cec'' layers = Inr cl
         \<and> layer_mean pl = Inr (m_phh2o m)
         \<and> layer_mean wl = Inr (m_wv0010 m)
         \<and> layer_mean cl = Inr (m_cec m)
         \<and> (if truthy nl
             then \<exists>vs. layer_values nl = Inr vs
                    \<and> dict_get vs ''mean'' PNone = Inr (m_nitrogen m)
                    \<and> dict_get vs ''uncertainty'' (PNum 0) = Inr (m_nitrogen_uncertainty m)
             else m_nitrogen m = PNone \<and> m_nitrogen_uncertainty m = PNone)"
  using assms
  by (auto simp: extract_measurements_def ebind_Inr_iff split: if_splits)

lemma extract_measurements_missing:
  assumes "extract_measurements sd = Inr m" and "py_iter sd = Inr layers"
      and "\<forall>l \<in> set layers. getitem_key l ''name'' \<noteq> Inr (PStr name)"
  shows "(name = ''nitrogen'' \<longrightarrow> m_nitrogen m = PNone \<and> m_nitrogen_uncertainty m = PNone)
       \<and> (name = ''phh2o'' \<longrightarrow> m_phh2o m = PNone)
       \<and> (name = ''wv0010'' \<longrightarrow> m_wv0010 m = PNone)
       \<and> (name = ''cec'' \<longrightarrow> m_cec m = PNone)"
proof -
  from extract_measurements_Inr [OF assms(1)] assms(2) obtain nl pl wl cl where
    n: "find_layer ''nitrogen'' layers = Inr nl" and
    p: "find_layer ''phh2o'' layers = Inr pl" and
    w: "find_layer ''wv0010'' layers = Inr wl" and
    c: "find_layer ''cec'' layers = Inr cl" and
    pm: "layer_mean pl = Inr (m_phh2o m)" and
    wm: "layer_mean wl = Inr (m_wv0010 m)" and
    cm: "layer_mean cl = Inr (m_cec m)" and
    nm: "if truthy nl
         then \<exists>vs. layer_values nl = Inr vs
                \<and> dict_get vs ''mean'' PNone = Inr (m_nitrogen m)
                \<and> dict_get vs ''uncertainty'' (PNum 0) = Inr (m_nitrogen_uncertainty m)
         else m_nitrogen m = PNone \<and> m_nitrogen_uncertainty m = PNone"
    by auto
  have r1: "m_nitrogen m = PNone \<and> m_nitrogen_uncertainty m = PNone" if "name = ''nitrogen''"
  proof -
    from find_layer_missing [OF assms(3)] n that have "nl = PNone" by simp
    with nm show ?thesis by simp
  qed
  have r2: "m_phh2o m = PNone" if "name = ''phh2o''"
  proof -
    from find_layer_missing [OF assms(3)] p that have "pl = PNone" by simp
    with pm show ?thesis by (simp add: layer_mean_PNone)
  qed
  have r3: "m_wv0010 m = PNone" if "name = ''wv0010''"
  proof -
    from find_layer_missing [OF assms(3)] w that have "wl = PNone" by simp
    with wm show ?thesis by (simp add: layer_mean_PNone)
  qed
  have r4: "m_cec m = PNone" if "name = ''cec''"
  proof -
    from find_layer_missing [OF assms(3)] c that have "cl = PNone" by simp
    with cm show ?thesis by (simp add: layer_mean_PNone)
  qed
  from r1 r2 r3 r4 show ?thesis by blast
qed

section \<open>The values extracted from the soil payload\<close>

lemma layer_values_truthy: "layer_values l = Inr vs \<Longrightarrow> truthy l"
  by (cases l) (auto simp: layer_values_def ebind_Inr_iff split: option.splits)

lemma find_layer_wf:
  assumes "\<forall>l \<in> set layers. \<exists>kvs. l = PDict kvs \<and> map_of kvs ''name'' \<noteq> None"
  shows "find_layer name layers = Inr PNone \<or> (\<exists>l \<in> set layers. find_layer name layers = Inr l)"
  using assms
proof (induction layers)
  case Nil
  then show ?case by simp
next
  case (Cons l layers)
  then obtain kvs v where "l = PDict kvs" "map_of kvs ''name'' = Some v" by auto
  with Cons show ?case by auto
qed

lemma layer_mean_total:
  assumes "l = PNone \<or> (\<exists>vs. layer_values l = Inr (PDict vs))"
  shows "\<exists>v. layer_mean l = Inr v"
  using assms by (auto simp: layer_mean_def)

lemma extract_measurements_total:
  assumes py: "py_iter soil_data = Inr layers"
      and wf: "\<forall>l \<in> set layers. \<exists>kvs vs. l = PDict kvs \<and> map_of kvs ''name'' \<noteq> None
                 \<and> layer_values l = Inr (PDict vs)"
  shows "\<exists>m. extract_measurements soil_data = Inr m"
proof -
  have names: "\<forall>l \<in> set layers. \<exists>kvs. l = PDict kvs \<and> map_of kvs ''name'' \<noteq> None"
    using wf by blast
  have found: "\<exists>l. find_layer name layers = Inr l
                 \<and> (l = PNone \<or> (\<exists>vs. layer_values l = Inr (PDict vs)))" for name
    using find_layer_wf [OF names, of name] wf by fastforce
  from found [of "''nitrogen''"] obtain nl where
    nl: "find_layer ''nitrogen'' layers = Inr nl"
        "nl = PNone \<or> (\<exists>vs. layer_values nl = Inr (PDict vs))" by blast
  from found [of "''phh2o''"] obtain pl where
    pl: "find_layer ''phh2o'' layers = Inr pl"
        "pl = PNone \<or> (\<exists>vs. layer_values pl = Inr (PDict vs))" by blast
  from found [of "''wv0010''"] obtain wl where
    wl: "find_layer ''wv0010'' layers = Inr wl"
        "wl = PNone \<or> (\<exists>vs. layer_values wl = Inr (PDict vs))" by blast
  from found [of "''cec''"] obtain cl where
    cl: "find_layer ''cec'' layers = Inr cl"
        "cl = PNone \<or> (\<exists>vs. layer_values cl = Inr (PDict vs))" by blast
  from layer_mean_total [OF pl(2)] obtain p where p: "layer_mean pl = Inr p" by blast
  from layer_mean_total [OF wl(2)] obtain w where w: "layer_mean wl = Inr w" by blast
  from layer_mean_total [OF cl(2)] obtain c where c: "layer_mean cl = Inr c" by blast
  have "\<exists>nu. (if truthy nl then
              ebind (layer_values nl) (\<lambda>nitrogen_values.
              ebind (dict_get nitrogen_values ''mean'' PNone) (\<lambda>n.
              ebind (dict_get nitrogen_values ''uncertainty'' (PNum 0)) (\<lambda>u.
              Inr (n, u))))
            else Inr (PNone, PNone)) = Inr nu"
    using nl(2) by auto
  then obtain nu where nu: "(if truthy nl then
              ebind (layer_values nl) (\<lambda>nitrogen_values.
              ebind (dict_get nitrogen_values ''mean'' PNone) (\<lambda>n.
              ebind (dict_get nitrogen_values ''uncertainty'' (PNum 0)) (\<lambda>u.
              Inr (n, u))))
            else Inr (PNone, PNone)) = Inr nu" by blast
  show ?thesis
    unfolding extract_measurements_def
    by (simp only: py nl(1) pl(1) wl(1) cl(1) p w c nu ebind_Inr) blast
qed

lemma extract_measurements_default_uncertainty:
  assumes "extract_measurements soil_data = Inr m" and "py_iter soil_data = Inr layers"
      and "find_layer ''nitrogen'' layers = Inr l" and "layer_values l = Inr (PDict vs)"
      and "map_of vs ''uncertainty'' = None"
  shows "m_nitrogen_uncertainty m = PNum 0"
proof -
  have t: "truthy l" using assms(4) by (rule layer_values_truthy)
  from extract_measurements_Inr [OF assms(1)] assms(2,3) t
  have "\<exists>vs'. layer_values l = Inr vs'
          \<and> dict_get vs' ''uncertainty'' (PNum 0) = Inr (m_nitrogen_uncertainty m)"
    by auto
  with assms(4,5) show ?thesis by auto
qed

text \<open>
  Claim C5, as the code has it. For every soil payload whose elements hold no layer named
  \<^verbatim>\<open>nitrogen\<close>, the extracted nitrogen value is \<^verbatim>\<open>None\<close> and the nitrogen uncertainty is
  \<^verbatim>\<open>None\<close> as well (line 154); the uncertainty is 0 when the nitrogen layer is there and
  its values have no \<^verbatim>\<open>uncertainty\<close> entry (line 151). For each of \<^verbatim>\<open>phh2o\<close>,
  \<^verbatim>\<open>wv0010\<close> and \<^verbatim>\<open>cec\<close>, a payload with no layer of that name gives \<^verbatim>\<open>None\<close> for the
  field. The extraction returns whenever every layer is a dictionary with a name and with
  a dictionary at \<^verbatim>\<open>['depths'][0]['values']\<close>.
\<close>

theorem extract_measurements_missing_layers:
  assumes "py_iter soil_data = Inr layers"
  shows "(\<forall>m. extract_measurements soil_data = Inr m \<longrightarrow>
            ((\<forall>l \<in> set layers. getitem_key l ''name'' \<noteq> Inr (PStr ''nitrogen''))
               \<longrightarrow> m_nitrogen m = PNone \<and> m_nitrogen_uncertainty m = PNone)
          \<and> ((\<forall>l \<in> set layers. getitem_key l ''name'' \<noteq> Inr (PStr ''phh2o''))
               \<longrightarrow> m_phh2o m = PNone)
          \<and> ((\<forall>l \<in> set layers. getitem_key l ''name'' \<noteq> Inr (PStr ''wv0010''))
               \<longrightarrow> m_wv0010 m = PNone)
          \<and> ((\<forall>l \<in> set layers. getitem_key l ''name'' \<noteq> Inr (PStr ''cec''))
               \<longrightarrow> m_cec m = PNone)
          \<and> (\<forall>l vs. find_layer ''nitrogen'' layers = Inr l \<and> layer_values l = Inr (PDict vs)
                 \<and> map_of vs ''uncertainty'' = None
               \<longrightarrow> m_nitrogen_uncertainty m = PNum 0))
       \<and> ((\<forall>l \<in> set layers. \<exists>kvs vs. l = PDict kvs \<and> map_of kvs ''name'' \<noteq> None
                 \<and> layer_values l = Inr (PDict vs))
            \<longrightarrow> (\<exists>m. extract_measurements soil_data = Inr m))"
proof (intro conjI allI impI)
  fix m
  assume run: "extract_measurements soil_data = Inr m"
  note missing = extract_measurements_missing [OF run assms]
  {
    assume "\<forall>l \<in> set layers. getitem_key l ''name'' \<noteq> Inr (PStr ''nitrogen'')"
    from missing [OF this] show "m_nitrogen m = PNone" and "m_nitrogen_uncertainty m = PNone"
      by simp_all
  }
  {
    assume "\<forall>l \<in> set layers. getitem_key l ''name'' \<noteq> Inr (PStr ''phh2o'')"
    from missing [OF this] show "m_phh2o m = PNone" by simp
  }
  {
    assume "\<forall>l \<in> set layers. getitem_key l ''name'' \<noteq> Inr (PStr ''wv0010'')"
    from missing [OF this] show "m_wv0010 m = PNone" by simp
  }
  {
    assume "\<forall>l \<in> set layers. getitem_key l ''name'' \<noteq> Inr (PStr ''cec'')"
    from missing [OF this] show "m_cec m = PNone" by simp
  }
  {
    fix l vs
    assume "find_layer ''nitrogen'' layers = Inr l \<and> layer_values l = Inr (PDict vs)
                 \<and> map_of vs ''uncertainty'' = None"
    then show "m_nitrogen_uncertainty m = PNum 0"
      using extract_measurements_default_uncertainty [OF run assms] by blast
  }
next
  assume "\<forall>l \<in> set layers. \<exists>kvs vs. l = PDict kvs \<and> map_of kvs ''name'' \<noteq> None
                 \<and> layer_values l = Inr (PDict vs)"
  then show "\<exists>m. extract_measurements soil_data = Inr m"
    by (rule extract_measurements_total [OF assms])
qed

text \<open>
  A payload with neither a nitrogen nor a cec layer, and one whose nitrogen layer has a
  mean and no uncertainty.
\<close>

theorem extract_measurements_missing_layers_witness:
  "(\<exists>m. extract_measurements (PList [sample_layer ''phh2o'' 65, sample_layer ''wv0010'' 0.3]) = Inr m
        \<and> m_nitrogen m = PNone \<and> m_nitrogen_uncertainty m = PNone \<and> m_cec m = PNone)
   \<and> (\<exists>m. extract_measurements
              (PList [sample_layer_bare ''nitrogen'' 50, sample_layer ''phh2o'' 65]) = Inr m
        \<and> m_nitrogen_uncertainty m = PNum 0)"
proof -
  let ?la = "[sample_layer ''phh2o'' 65, sample_layer ''wv0010'' 0.3]"
  let ?lb = "[sample_layer_bare ''nitrogen'' 50, sample_layer ''phh2o'' 65]"
  note ta = extract_measurements_missing_layers [of "PList ?la" ?la, OF py_iter.simps(1)]
  note tb = extract_measurements_missing_layers [of "PList ?lb" ?lb, OF py_iter.simps(1)]
  have wfa: "\<forall>l \<in> set ?la. \<exists>kvs vs. l = PDict kvs \<and> map_of kvs ''name'' \<noteq> None
                 \<and> layer_values l = Inr (PDict vs)"
    by (simp add: sample_layer_def layer_values_def)
  have wfb: "\<forall>l \<in> set ?lb. \<exists>kvs vs. l = PDict kvs \<and> map_of kvs ''name'' \<noteq> None
                 \<and> layer_values l = Inr (PDict vs)"
    by (simp add: sample_layer_def sample_layer_bare_def layer_values_def)
  from ta [THEN conjunct2, THEN mp, OF wfa] obtain ma where
    ma: "extract_measurements (PList ?la) = Inr ma" by blast
  from tb [THEN conjunct2, THEN mp, OF wfb] obtain mb where
    mb: "extract_measurements (PList ?lb) = Inr mb" by blast
  have no_n: "\<forall>l \<in> set ?la. getitem_key l ''name'' \<noteq> Inr (PStr ''nitrogen'')"
    by (simp add: sample_layer_def)
  have no_c: "\<forall>l \<in> set ?la. getitem_key l ''name'' \<noteq> Inr (PStr ''cec'')"
    by (simp add: sample_layer_def)
  note fa = ta [THEN conjunct1, THEN spec, THEN mp, OF ma]
  note n = fa [THEN conjunct1, THEN mp, OF no_n]
  note c = fa [THEN conjunct2, THEN conjunct2, THEN conjunct2, THEN conjunct1, THEN mp, OF no_c]
  have bare: "find_layer ''nitrogen'' ?lb = Inr (sample_layer_bare ''nitrogen'' 50)
        \<and> layer_values (sample_layer_bare ''nitrogen'' 50) = Inr (PDict [(''mean'', PNum 50)])
        \<and> map_of [(''mean'', PNum 50)] ''uncertainty'' = None"
    by (simp add: sample_layer_bare_def layer_values_def)
  note u = tb [THEN conjunct1, THEN spec, THEN mp, OF mb, THEN conjunct2, THEN conjunct2,
      THEN conjunct2, THEN conjunct2, THEN spec, THEN spec, THEN mp, OF bare]
  from ma n c have a: "\<exists>m. extract_measurements (PList ?la) = Inr m
        \<and> m_nitrogen m = PNone \<and> m_nitrogen_uncertainty m = PNone \<and> m_cec m = PNone"
    by blast
  from mb u have b: "\<exists>m. extract_measurements (PList ?lb) = Inr m
        \<and> m_nitrogen_uncertainty m = PNum 0"
    by blast
  show ?thesis by (intro conjI a b)
qed

text \<open>
  Against the claim as first stated: without a nitrogen layer the uncertainty extracted is
  \<^verbatim>\<open>None\<close>, not 0.
\<close>

theorem extract_measurements_uncertainty_counterexample:
  "extract_measurements
      (PList [sample_layer ''phh2o'' 65, sample_layer ''wv0010'' 0.3, sample_layer ''cec'' 12])
     = Inr \<lparr>m_nitrogen = PNone, m_nitrogen_uncertainty = PNone, m_phh2o = PNum 65,
            m_wv0010 = PNum 0.3, m_cec = PNum 12\<rparr>
   \<and> m_nitrogen_uncertainty \<lparr>m_nitrogen = PNone, m_nitrogen_uncertainty = PNone,
        m_phh2o = PNum 65, m_wv0010 = PNum 0.3, m_cec = PNum 12\<rparr> \<noteq> PNum 0"
  by (simp add: extract_measurements_def sample_layer_def layer_mean_def layer_values_def)

section \<open>A request whose payload lacks a named layer\<close>

lemma new_record_of_None:
  assumes "m_nitrogen m = PNone \<or> m_phh2o m = PNone \<or> m_wv0010 m = PNone \<or> m_cec m = PNone"
  shows "\<exists>err. new_record_of e la lo m wd = Inl err"
proof -
  let ?sd = "[(''nitrogen'', m_nitrogen m), (''wv0010'', m_wv0010 m),
              (''phh2o'', m_phh2o m), (''cec'', m_cec m)]"
  have g: "generate_recommendations (set_order e) ?sd wd = Inl TypeError"
    using assms
  proof (elim disjE)
    assume "m_nitrogen m = PNone"
    then have "map_of ?sd ''nitrogen'' = Some PNone" by simp
    then show ?thesis by (rule generate_recommendations_TypeError [rotated]) simp
  next
    assume "m_phh2o m = PNone"
    then have "map_of ?sd ''phh2o'' = Some PNone" by simp
    then show ?thesis by (rule generate_recommendations_TypeError [rotated]) simp
  next
    assume "m_wv0010 m = PNone"
    then have "map_of ?sd ''wv0010'' = Some PNone" by simp
    then show ?thesis by (rule generate_recommendations_TypeError [rotated]) simp
  next
    assume "m_cec m = PNone"
    then have "map_of ?sd ''cec'' = Some PNone" by simp
    then show ?thesis by (rule generate_recommendations_TypeError [rotated]) simp
  qed
  show ?thesis
  proof (cases "new_record_of e la lo m wd")
    case (Inl err)
    then show ?thesis by blast
  next
    case (Inr x)
    obtain t h r where "x = (t, h, r)" by (cases x) auto
    with Inr new_record_of_Inr [of e la lo m wd t h r] g show ?thesis by auto
  qed
qed

lemma fetch_and_store_missing_layer:
  assumes "soil_data_of (soil_api e la lo) = Inr (PList layers)"
      and "weather_data_of (weather_api e la lo) = Inr wd"
      and "truthy wd"
      and "name \<in> {''nitrogen'', ''phh2o'', ''wv0010'', ''cec''}"
      and "\<forall>l \<in> set layers. getitem_key l ''name'' \<noteq> Inr (PStr name)"
  shows "\<exists>err. fetch_and_store e la lo s
           = (Inl err, s\<lparr>http_log := http_log s @ [SoilGridsGET la lo, WeatherGET la lo]\<rparr>)"
proof -
  have t: "truthy (PList layers)"
    using soil_data_of_PList [OF assms(1)] by simp
  show ?thesis
  proof (cases "extract_measurements (PList layers)")
    case (Inl err)
    then show ?thesis
      using assms(1,2,3) t
      by (simp add: fetch_and_store_def get_soil_data_def get_weather_data_def)
  next
    case (Inr m)
    from extract_measurements_missing [OF Inr _ assms(5)] assms(4)
    have "m_nitrogen m = PNone \<or> m_phh2o m = PNone \<or> m_wv0010 m = PNone \<or> m_cec m = PNone"
      by auto
    from new_record_of_None [OF this, of e la lo wd] obtain err where
      "new_record_of e la lo m wd = Inl err" by blast
    with Inr show ?thesis
      using assms(1,2,3) t
      by (simp add: fetch_and_store_def get_soil_data_def get_weather_data_def)
  qed
qed

text \<open>
  Claim C3. Let both fetches succeed, the forecast be non-empty, and the list of soil
  layers hold no layer with one of the names \<^verbatim>\<open>nitrogen\<close>, \<^verbatim>\<open>phh2o\<close>, \<^verbatim>\<open>wv0010\<close>,
  \<^verbatim>\<open>cec\<close>. The measurement is then \<^verbatim>\<open>None\<close>, and \<^verbatim>\<open>generate_recommendations\<close>, called
  while the arguments of the new record are evaluated, raises on it. For every such request
  that misses the cache (no record in reach, or a stale one, which is deleted first) the
  handler ends with an exception and the table gets no new row: the record with the
  \<^verbatim>\<open>None\<close> field is never stored.
\<close>

theorem analyze_soil_missing_layer:
  assumes "soil_data_of (soil_api e la lo) = Inr (PList layers)"
      and "weather_data_of (weather_api e la lo) = Inr wd"
      and "truthy wd"
      and "name \<in> {''nitrogen'', ''phh2o'', ''wv0010'', ''cec''}"
      and "\<forall>l \<in> set layers. getitem_key l ''name'' \<noteq> Inr (PStr name)"
  shows "(find_closest_coordinates la lo 0.5 (db s) = None \<longrightarrow>
            (\<exists>err. analyze_soil e la lo s
               = (Inl err, s\<lparr>http_log := http_log s @ [SoilGridsGET la lo, WeatherGET la lo]\<rparr>)))
       \<and> (\<forall>found. find_closest_coordinates la lo 0.5 (db s) = Some found
              \<and> two_days < clock_lookup e - (wall (date_recorded found)
                    - (case tzinfo (date_recorded found) of None \<Rightarrow> 0 | Some off \<Rightarrow> off))
            \<longrightarrow> (\<exists>err. analyze_soil e la lo s
                  = (Inl err,
                     s\<lparr>db := remove1 found (db s),
                       http_log := http_log s @ [SoilGridsGET la lo, WeatherGET la lo]\<rparr>)))"
proof -
  note fetch = fetch_and_store_missing_layer [OF assms]
  have miss: "\<exists>err. analyze_soil e la lo s
               = (Inl err, s\<lparr>http_log := http_log s @ [SoilGridsGET la lo, WeatherGET la lo]\<rparr>)"
    if "find_closest_coordinates la lo 0.5 (db s) = None"
    using analyze_soil_miss [OF that, of e] fetch [of s] by simp
  have stale: "\<exists>err. analyze_soil e la lo s
                  = (Inl err,
                     s\<lparr>db := remove1 found (db s),
                       http_log := http_log s @ [SoilGridsGET la lo, WeatherGET la lo]\<rparr>)"
    if "find_closest_coordinates la lo 0.5 (db s) = Some found
        \<and> two_days < clock_lookup e - (wall (date_recorded found)
              - (case tzinfo (date_recorded found) of None \<Rightarrow> 0 | Some off \<Rightarrow> off))"
    for found
    using analyze_soil_found [of la lo s found e] that
      fetch [of "s\<lparr>db := remove1 found (db s)\<rparr>"]
    by simp
  from miss stale show ?thesis by blast
qed

text \<open>A payload without the nitrogen layer: the exception is a \<^verbatim>\<open>TypeError\<close>.\<close>

lemma sample_missing_nitrogen_run:
  "analyze_soil (sample_env sample_soil_no_nitrogen sample_weather_ok 1000 1007) 10 20 (sample_state [])
     = (Inl TypeError, \<lparr>db = [], http_log = [SoilGridsGET 10 20, WeatherGET 10 20]\<rparr>)"
  apply (simp add: analyze_soil_def fetch_and_store_def get_soil_data_def get_weather_data_def
      sample_env_def sample_state_def sample_soil_no_nitrogen_def sample_weather_ok_def
      soil_data_of_def weather_data_of_def sample_soil_body_def sample_weather_body_def
      sample_layer_def sample_day_def)
  apply (simp add: extract_measurements_def layer_values_def layer_mean_def new_record_of_def
      generate_recommendations_def get_or_0_def)
  done

theorem analyze_soil_missing_layer_witness:
  "soil_data_of (soil_api (sample_env sample_soil_no_nitrogen sample_weather_ok 1000 1007) 10 20)
     = Inr (PList [sample_layer ''phh2o'' 65, sample_layer ''wv0010'' 0.3, sample_layer ''cec'' 12])
   \<and> (\<exists>err. analyze_soil (sample_env sample_soil_no_nitrogen sample_weather_ok 1000 1007) 10 20
               (sample_state [])
          = (Inl err, \<lparr>db = [], http_log = [SoilGridsGET 10 20, WeatherGET 10 20]\<rparr>))"
proof -
  let ?e = "sample_env sample_soil_no_nitrogen sample_weather_ok 1000 1007"
  let ?layers = "[sample_layer ''phh2o'' 65, sample_layer ''wv0010'' 0.3, sample_layer ''cec'' 12]"
  let ?wd = "PList [sample_day 40 10, sample_day 30 12]"
  have soil: "soil_data_of (soil_api ?e 10 20) = Inr (PList ?layers)"
    by (simp add: sample_env_def sample_soil_no_nitrogen_def sample_soil_body_def soil_data_of_def
          sample_layer_def)
  have weather: "weather_data_of (weather_api ?e 10 20) = Inr ?wd"
    by (simp add: sample_env_def sample_weather_ok_def sample_weather_body_def weather_data_of_def)
  have t: "truthy ?wd" by simp
  have k: "''nitrogen'' \<in> {''nitrogen'', ''phh2o'', ''wv0010'', ''cec''}" by simp
  have absent: "\<forall>l \<in> set ?layers. getitem_key l ''name'' \<noteq> Inr (PStr ''nitrogen'')"
    by (simp add: sample_layer_def)
  have miss: "find_closest_coordinates 10 20 0.5 (db (sample_state [])) = None"
    by (simp add: sample_state_def)
  note r = analyze_soil_missing_layer [OF soil weather t k absent, THEN conjunct1, THEN mp, OF miss]
  have run: "\<exists>err. analyze_soil ?e 10 20 (sample_state [])
          = (Inl err, \<lparr>db = [], http_log = [SoilGridsGET 10 20, WeatherGET 10 20]\<rparr>)"
    using r by (simp add: sample_state_def)
  show ?thesis by (intro conjI soil run)
qed

end
